theory Spec2Isabelle
  imports Main
begin

section \<open>Strings as the title matcher reads them\<close>

text \<open>
  A JavaScript string is modelled as a \<^typ>\<open>string\<close> whose characters are the code
  units below 256 (ASCII and Latin-1). On that range \<open>toLowerCase\<close> maps \<open>A-Z\<close> and the
  accented capitals \<open>0xC0-0xDE\<close> (without the multiplication sign \<open>0xD7\<close>) to the
  character 32 places later, the class \<open>\s\<close> holds tab, line feed, vertical tab, form
  feed, carriage return, space and the no-break space, and \<open>\w\<close> is \<open>[A-Za-z0-9_]\<close>.
\<close>

definition lowerChar :: "char \<Rightarrow> char" where
  "lowerChar c =
     (let n = (of_char c :: nat)
      in if (65 \<le> n \<and> n \<le> 90) \<or> (192 \<le> n \<and> n \<le> 222 \<and> n \<noteq> 215)
         then char_of (n + 32) else c)"

definition toLowerCase :: "string \<Rightarrow> string" where
  "toLowerCase s = map lowerChar s"

definition isSpace :: "char \<Rightarrow> bool" where
  "isSpace c = (let n = (of_char c :: nat) in (9 \<le> n \<and> n \<le> 13) \<or> n = 32 \<or> n = 160)"

definition isWord :: "char \<Rightarrow> bool" where
  "isWord c =
     (let n = (of_char c :: nat)
      in (48 \<le> n \<and> n \<le> 57) \<or> (65 \<le> n \<and> n \<le> 90) \<or> (97 \<le> n \<and> n \<le> 122) \<or> n = 95)"

text \<open>\<open>s.trim()\<close>: white space is dropped at both ends.\<close>

definition trim :: "string \<Rightarrow> string" where
  "trim s = rev (dropWhile isSpace (rev (dropWhile isSpace s)))"

text \<open>\<open>s.split(':')[0]\<close>: the text before the first colon, all of \<open>s\<close> when it has none.\<close>

definition beforeColon :: "string \<Rightarrow> string" where
  "beforeColon s = takeWhile (\<lambda>c. c \<noteq> CHR '':'') s"

text \<open>\<open>s.replace(/[^\w\s]/g, '')\<close>: every character that is neither a word character
  nor white space is deleted.\<close>

definition stripSpecial :: "string \<Rightarrow> string" where
  "stripSpecial s = filter (\<lambda>c. isWord c \<or> isSpace c) s"

text \<open>\<open>s.replace(/\s+/g, ' ')\<close>: every maximal run of white space becomes one space.
  The flag says whether the character before was white space.\<close>

fun squeeze :: "bool \<Rightarrow> string \<Rightarrow> string" where
  "squeeze prev [] = []"
| "squeeze prev (c # cs) =
     (if isSpace c then (if prev then squeeze True cs else CHR '' '' # squeeze True cs)
      else c # squeeze False cs)"

definition collapseSpaces :: "string \<Rightarrow> string" where
  "collapseSpaces s = squeeze False s"

text \<open>\<open>hay.includes(needle)\<close>: \<open>needle\<close> occurs in \<open>hay\<close> as a contiguous run.\<close>

fun startsWith :: "string \<Rightarrow> string \<Rightarrow> bool" where
  "startsWith hay [] = True"
| "startsWith [] (n # ns) = False"
| "startsWith (h # hs) (n # ns) = (h = n \<and> startsWith hs ns)"

fun includes_str :: "string \<Rightarrow> string \<Rightarrow> bool" where
  "includes_str [] needle = (needle = [])"
| "includes_str (h # hs) needle = (startsWith (h # hs) needle \<or> includes_str hs needle)"

text \<open>The helper \<open>normalizeTitle\<close> of \<open>BookshelfService.addBook\<close>.\<close>

definition normalizeTitle :: "string \<Rightarrow> string" where
  "normalizeTitle title =
     collapseSpaces (stripSpecial (trim (beforeColon (toLowerCase title))))"

section \<open>Resources of the external library manager\<close>

text \<open>An author as the endpoints \<open>/author/lookup\<close> and \<open>/author\<close> return it.\<close>

record author_resource =
  a_id :: int
  a_foreignAuthorId :: string
  a_authorName :: string

text \<open>The author a looked-up book carries with it.\<close>

record embedded_author =
  e_foreignAuthorId :: string
  e_authorName :: string

text \<open>A candidate as the endpoint \<open>/book/lookup\<close> returns it; its author comes
  embedded under \<open>author\<close> or flattened into \<open>foreignAuthorId\<close> and \<open>authorName\<close>.\<close>

record book_resource =
  b_title :: string
  b_foreignBookId :: string
  b_author :: "embedded_author option"
  b_foreignAuthorId :: "string option"
  b_authorName :: "string option"

section \<open>Candidate selection in \<open>addBook\<close>\<close>

text \<open>The four strategies of the callback handed to \<open>bookResults.find\<close>, on the title
  searched for and the title of one candidate.\<close>

definition strategy1 :: "string \<Rightarrow> string \<Rightarrow> bool" where
  "strategy1 searchTitle bookTitle = (toLowerCase bookTitle = toLowerCase searchTitle)"

definition strategy2 :: "string \<Rightarrow> string \<Rightarrow> bool" where
  "strategy2 searchTitle bookTitle = (normalizeTitle bookTitle = normalizeTitle searchTitle)"

definition strategy3 :: "string \<Rightarrow> string \<Rightarrow> bool" where
  "strategy3 searchTitle bookTitle =
     (includes_str (toLowerCase bookTitle) (toLowerCase searchTitle) \<or>
      includes_str (toLowerCase searchTitle) (toLowerCase bookTitle))"

definition strategy4 :: "string \<Rightarrow> string \<Rightarrow> bool" where
  "strategy4 searchTitle bookTitle =
     (includes_str (normalizeTitle bookTitle) (normalizeTitle searchTitle) \<or>
      includes_str (normalizeTitle searchTitle) (normalizeTitle bookTitle))"

definition titleMatches :: "string \<Rightarrow> book_resource \<Rightarrow> bool" where
  "titleMatches searchTitle book =
     (if strategy1 searchTitle (b_title book) then True
      else if strategy2 searchTitle (b_title book) then True
      else if strategy3 searchTitle (b_title book) then True
      else if strategy4 searchTitle (b_title book) then True
      else False)"

text \<open>\<open>bookResults.find(...)\<close>: the first candidate the callback accepts, \<open>None\<close> for
  JavaScript's \<open>undefined\<close>.\<close>

definition findBookMatch :: "string \<Rightarrow> book_resource list \<Rightarrow> book_resource option" where
  "findBookMatch searchTitle bookResults = List.find (titleMatches searchTitle) bookResults"

section \<open>The HTTP boundary of \<open>BookshelfService\<close>\<close>

text \<open>
  What one \<open>fetch\<close> with the reading of its body gives back: the promise is rejected
  (\<open>fetch\<close>, \<open>text()\<close> or \<open>json()\<close> threw an \<open>Error\<close> with the message kept here), or
  the response is \<open>ok\<close> and its JSON body was parsed, or the response is not \<open>ok\<close> and
  carries a status, a status text and a body text.
\<close>

datatype 'a fetched =
    Rejected string
  | Answered 'a
  | Refused nat string string

record root_folder =
  f_path :: string

record quality_profile =
  q_id :: int
  q_name :: string

record add_options =
  o_monitor :: string
  o_searchForMissingBooks :: bool
  o_monitored :: bool
  o_booksToMonitor :: "string list"

text \<open>The body of \<open>POST /api/v1/author\<close>.\<close>

record author_to_add =
  n_foreignAuthorId :: string
  n_authorName :: string
  n_qualityProfileId :: int
  n_metadataProfileId :: int
  n_monitored :: bool
  n_rootFolderPath :: string
  n_addOptions :: add_options

text \<open>A book in the library, as \<open>GET /api/v1/book?authorId=\<close> lists it:
  \<open>l_bookFileCount\<close> is \<open>statistics?.bookFileCount\<close>, \<open>None\<close> when it is missing, and
  \<open>l_grabbed\<close> says whether the field \<open>grabbed\<close> is exactly \<open>true\<close>.\<close>

record library_book =
  l_foreignBookId :: string
  l_bookFileCount :: "nat option"
  l_grabbed :: bool
  l_monitored :: bool

text \<open>
  The external system is a parameter: for each endpoint the service calls, a function
  from the request and the system's state \<open>'w\<close> to the outcome of the fetch and the
  state after it. The base URL and the API key of \<open>config\<close> are the same in every
  call and are left out. Every request the service sends is recorded, in order.
\<close>

record 'w bookshelf =
  author_lookup :: "string \<Rightarrow> 'w \<Rightarrow> author_resource list fetched \<times> 'w"
  book_lookup :: "string \<Rightarrow> 'w \<Rightarrow> book_resource list fetched \<times> 'w"
  root_folders :: "'w \<Rightarrow> root_folder list fetched \<times> 'w"
  post_author :: "author_to_add \<Rightarrow> 'w \<Rightarrow> author_resource fetched \<times> 'w"
  quality_profiles :: "'w \<Rightarrow> quality_profile list fetched \<times> 'w"

datatype call =
    AuthorLookup string
  | BookLookup string
  | RootFolder
  | PostAuthor author_to_add
  | QualityProfiles

type_synonym 'w session = "call list \<times> 'w"

definition fetchAuthorLookup ::
  "'w bookshelf \<Rightarrow> string \<Rightarrow> 'w session \<Rightarrow> author_resource list fetched \<times> 'w session" where
  "fetchAuthorLookup bs term st =
     (case author_lookup bs term (snd st) of
        (r, w') \<Rightarrow> (r, (fst st @ [AuthorLookup term], w')))"

definition fetchBookLookup ::
  "'w bookshelf \<Rightarrow> string \<Rightarrow> 'w session \<Rightarrow> book_resource list fetched \<times> 'w session" where
  "fetchBookLookup bs term st =
     (case book_lookup bs term (snd st) of
        (r, w') \<Rightarrow> (r, (fst st @ [BookLookup term], w')))"

definition fetchRootFolders ::
  "'w bookshelf \<Rightarrow> 'w session \<Rightarrow> root_folder list fetched \<times> 'w session" where
  "fetchRootFolders bs st =
     (case root_folders bs (snd st) of
        (r, w') \<Rightarrow> (r, (fst st @ [RootFolder], w')))"

definition fetchPostAuthor ::
  "'w bookshelf \<Rightarrow> author_to_add \<Rightarrow> 'w session \<Rightarrow> author_resource fetched \<times> 'w session" where
  "fetchPostAuthor bs body st =
     (case post_author bs body (snd st) of
        (r, w') \<Rightarrow> (r, (fst st @ [PostAuthor body], w')))"

definition fetchQualityProfiles ::
  "'w bookshelf \<Rightarrow> 'w session \<Rightarrow> quality_profile list fetched \<times> 'w session" where
  "fetchQualityProfiles bs st =
     (case quality_profiles bs (snd st) of
        (r, w') \<Rightarrow> (r, (fst st @ [QualityProfiles], w')))"

text \<open>\<open>lookupAuthor\<close>, \<open>getRootFolders\<close> and \<open>getQualityProfiles\<close> catch every failure and
  answer with the empty array.\<close>

definition lookupAuthor ::
  "'w bookshelf \<Rightarrow> string \<Rightarrow> 'w session \<Rightarrow> author_resource list \<times> 'w session" where
  "lookupAuthor bs authorName st =
     (case fetchAuthorLookup bs authorName st of
        (Answered results, st') \<Rightarrow> (results, st')
      | (Refused status statusText body, st') \<Rightarrow> ([], st')
      | (Rejected msg, st') \<Rightarrow> ([], st'))"

definition getRootFolders :: "'w bookshelf \<Rightarrow> 'w session \<Rightarrow> root_folder list \<times> 'w session" where
  "getRootFolders bs st =
     (case fetchRootFolders bs st of
        (Answered folders, st') \<Rightarrow> (folders, st')
      | (Refused status statusText body, st') \<Rightarrow> ([], st')
      | (Rejected msg, st') \<Rightarrow> ([], st'))"

definition getQualityProfiles ::
  "'w bookshelf \<Rightarrow> 'w session \<Rightarrow> quality_profile list \<times> 'w session" where
  "getQualityProfiles bs st =
     (case fetchQualityProfiles bs st of
        (Answered profiles, st') \<Rightarrow> (profiles, st')
      | (Refused status statusText body, st') \<Rightarrow> ([], st')
      | (Rejected msg, st') \<Rightarrow> ([], st'))"

section \<open>\<open>BookshelfService.addBook\<close>\<close>

record book_data =
  d_title :: string
  d_author :: string
  d_isbn :: "string option"
  d_monitored :: "bool option"
  d_qualityProfileId :: int

text \<open>The value \<open>addBook\<close> resolves to: \<open>{ success, bookshelfId?, error? }\<close>.\<close>

record add_result =
  r_success :: bool
  r_bookshelfId :: "int option"
  r_error :: "string option"

definition failed :: "string \<Rightarrow> add_result" where
  "failed msg = \<lparr>r_success = False, r_bookshelfId = None, r_error = Some msg\<rparr>"

definition added :: "int \<Rightarrow> add_result" where
  "added i = \<lparr>r_success = True, r_bookshelfId = Some i, r_error = None\<rparr>"

text \<open>\<open>bookData.isbn || `${bookData.title}`\<close>: a missing and an empty ISBN are both falsy.\<close>

definition bookSearchQuery :: "book_data \<Rightarrow> string" where
  "bookSearchQuery bookData =
     (case d_isbn bookData of
        None \<Rightarrow> d_title bookData
      | Some isbn \<Rightarrow> if isbn = [] then d_title bookData else isbn)"

definition authorToAdd ::
  "author_resource \<Rightarrow> book_data \<Rightarrow> book_resource \<Rightarrow> string \<Rightarrow> author_to_add" where
  "authorToAdd authorMetadata bookData bookMatch rootFolderPath =
     \<lparr>n_foreignAuthorId = a_foreignAuthorId authorMetadata,
      n_authorName = a_authorName authorMetadata,
      n_qualityProfileId = d_qualityProfileId bookData,
      n_metadataProfileId = 1,
      n_monitored = True,
      n_rootFolderPath = rootFolderPath,
      n_addOptions =
        \<lparr>o_monitor = ''none'',
         o_searchForMissingBooks = True,
         o_monitored = True,
         o_booksToMonitor = [b_foreignBookId bookMatch]\<rparr>\<rparr>"

text \<open>
  \<open>addBook\<close> as \<open>lib/services/bookshelf.service.ts\<close> has it. A rejected fetch is
  caught by the outer \<open>try\<close> and becomes \<open>{ success: false, error: error.message }\<close>.
\<close>

definition addBook ::
  "'w bookshelf \<Rightarrow> book_data \<Rightarrow> 'w session \<Rightarrow> add_result \<times> 'w session" where
  "addBook bs bookData st0 =
     (case lookupAuthor bs (d_author bookData) st0 of
        ([], st1) \<Rightarrow> (failed ''Author not found in metadata provider'', st1)
      | (authorMetadata # others, st1) \<Rightarrow>
        (case fetchBookLookup bs (bookSearchQuery bookData) st1 of
           (Rejected msg, st2) \<Rightarrow> (failed msg, st2)
         | (Refused status statusText body, st2) \<Rightarrow> (failed ''Failed to lookup book'', st2)
         | (Answered bookResults, st2) \<Rightarrow>
           (case findBookMatch (d_title bookData) bookResults of
              None \<Rightarrow> (failed ''Book not found in metadata'', st2)
            | Some bookMatch \<Rightarrow>
              (case getRootFolders bs st2 of
                 ([], st3) \<Rightarrow> (failed ''No root folder configured in Bookshelf'', st3)
               | (folder # folders, st3) \<Rightarrow>
                 (case fetchPostAuthor bs
                         (authorToAdd authorMetadata bookData bookMatch (f_path folder)) st3 of
                    (Rejected msg, st4) \<Rightarrow> (failed msg, st4)
                  | (Answered data, st4) \<Rightarrow> (added (a_id data), st4)
                  | (Refused status statusText errorText, st4) \<Rightarrow>
                    if status = 400 \<and> includes_str errorText ''AuthorExistsValidator''
                    then
                      (case lookupAuthor bs (a_authorName authorMetadata) st4 of
                         (existingAuthors, st5) \<Rightarrow>
                           (case List.find
                                   (\<lambda>a. a_foreignAuthorId a = a_foreignAuthorId authorMetadata)
                                   existingAuthors of
                              Some existingAuthor \<Rightarrow> (added (a_id existingAuthor), st5)
                            | None \<Rightarrow> (failed ''Author exists but could not be found'', st5)))
                    else (failed (''Failed to add author: '' @ statusText), st4))))))"

section \<open>\<open>BookshelfService.getAuthorBookStatus\<close>\<close>

datatype book_status = is_available | is_downloading | is_missing | is_error

record status_result =
  s_status :: book_status
  s_bookFileCount :: "nat option"
  s_error :: "string option"

text \<open>
  The function fetches \<open>/api/v1/book?authorId=\<close> and classifies what comes back; the
  model takes the outcome of that fetch as its first argument. A rejected fetch is caught
  inside the function.
\<close>

definition getAuthorBookStatus :: "library_book list fetched \<Rightarrow> string \<Rightarrow> status_result" where
  "getAuthorBookStatus response foreignBookId =
     (case response of
        Rejected msg \<Rightarrow>
          \<lparr>s_status = is_error, s_bookFileCount = None, s_error = Some msg\<rparr>
      | Refused status statusText body \<Rightarrow>
          if status = 404
          then \<lparr>s_status = is_error, s_bookFileCount = None,
                s_error = Some ''Books not found for author in Bookshelf''\<rparr>
          else \<lparr>s_status = is_error, s_bookFileCount = None,
                s_error = Some (''Failed to get books: '' @ statusText)\<rparr>
      | Answered books \<Rightarrow>
          (case List.find (\<lambda>b. l_foreignBookId b = foreignBookId) books of
             None \<Rightarrow>
               \<lparr>s_status = is_error, s_bookFileCount = None,
                s_error = Some ''Book not found in author books''\<rparr>
           | Some book \<Rightarrow>
               (let bookFileCount = (case l_bookFileCount book of None \<Rightarrow> 0 | Some n \<Rightarrow> n)
                in if bookFileCount > 0
                   then \<lparr>s_status = is_available, s_bookFileCount = Some bookFileCount,
                         s_error = None\<rparr>
                   else if l_grabbed book
                   then \<lparr>s_status = is_downloading, s_bookFileCount = Some 0, s_error = None\<rparr>
                   else \<lparr>s_status = is_missing, s_bookFileCount = Some 0, s_error = None\<rparr>)))"

section \<open>The request table\<close>

datatype status = pending | approved | declined | available | processing

text \<open>A row of the table \<open>requests\<close>; a nullable column is an \<open>option\<close>, a timestamp a
  number of seconds.\<close>

record request =
  req_id :: int
  req_userId :: int
  req_bookId :: string
  req_status :: status
  req_qualityProfileId :: int
  req_bookshelfId :: "int option"
  req_requestedAt :: nat
  req_processedAt :: "nat option"
  req_processedBy :: "int option"
  req_notes :: "string option"
  req_completedAt :: "nat option"
  req_lastPolledAt :: "nat option"
  req_foreignBookId :: "string option"
  req_foreignAuthorId :: "string option"
  req_monitoringOption :: "string option"

record user =
  u_id :: int
  u_username :: string
  u_admin :: bool

text \<open>
  The database as far as the request life cycle reads and writes it: the rows of
  \<open>requests\<close> in row order, the largest id the \<open>AUTOINCREMENT\<close> key has handed out, the
  table \<open>settings\<close> as key and value pairs, and the table \<open>users\<close>. Queries are taken
  to succeed.
\<close>

record database =
  db_requests :: "request list"
  db_seq :: int
  db_settings :: "(string \<times> string) list"
  db_users :: "user list"

text \<open>\<open>db.update(requests).set(...).where(eq(requests.id, i))\<close>.\<close>

definition updateWhereId :: "int \<Rightarrow> (request \<Rightarrow> request) \<Rightarrow> request list \<Rightarrow> request list" where
  "updateWhereId i f rows = map (\<lambda>r. if req_id r = i then f r else r) rows"

text \<open>\<open>urlSetting[0]?.value\<close> and \<open>apiKeySetting[0]?.value\<close>, and the test
  \<open>!bookshelfUrl || !bookshelfApiKey\<close>, which a missing row and an empty value both meet.\<close>

definition settingValue :: "database \<Rightarrow> string \<Rightarrow> string option" where
  "settingValue db k = map_of (db_settings db) k"

definition falsy :: "string option \<Rightarrow> bool" where
  "falsy v = (case v of None \<Rightarrow> True | Some s \<Rightarrow> s = [])"

definition notConfigured :: "database \<Rightarrow> bool" where
  "notConfigured db =
     (falsy (settingValue db ''bookshelf_url'') \<or> falsy (settingValue db ''bookshelf_api_key''))"

text \<open>What \<open>BookService.getBookById\<close> gives: the book, \<open>null\<close>, or the exception
  \<open>Failed to retrieve book\<close>.\<close>

record book_details =
  k_title :: string
  k_author :: "string option"
  k_isbn :: "string option"
  k_isbn13 :: "string option"

datatype book_outcome = Found book_details | NoBook | Thrown

text \<open>An attempt of \<open>NotificationService.sendNotification\<close>, which catches its own
  failures: the recipients, the type and the book title.\<close>

record notice =
  t_userIds :: "int list"
  t_type :: string
  t_bookTitle :: string

section \<open>\<open>RequestService\<close>: creating and updating requests\<close>

record new_request_data =
  c_userId :: int
  c_bookId :: string
  c_qualityProfileId :: int
  c_notes :: "string option"

definition insertRequest :: "request \<Rightarrow> database \<Rightarrow> request \<times> database" where
  "insertRequest row db =
     (let stored = row\<lparr>req_id := db_seq db + 1\<rparr>
      in (stored, db\<lparr>db_requests := db_requests db @ [stored], db_seq := db_seq db + 1\<rparr>))"

text \<open>\<open>createRequest\<close>: the error is the message of the exception it throws.\<close>

definition createRequest ::
  "(string \<Rightarrow> book_outcome) \<Rightarrow> nat \<Rightarrow> new_request_data \<Rightarrow> database \<Rightarrow> string + request \<times> database"
  where
  "createRequest getBookById now data db =
     (if filter (\<lambda>r. req_userId r = c_userId data \<and> req_bookId r = c_bookId data \<and>
                      req_status r = pending) (db_requests db) \<noteq> []
      then Inl ''You already have a pending request for this book''
      else if getBookById (c_bookId data) = Thrown
      then Inl ''Failed to retrieve book''
      else Inr (insertRequest
             \<lparr>req_id = 0, req_userId = c_userId data, req_bookId = c_bookId data,
              req_status = pending, req_qualityProfileId = c_qualityProfileId data,
              req_bookshelfId = None, req_requestedAt = now, req_processedAt = None,
              req_processedBy = None, req_notes = c_notes data, req_completedAt = None,
              req_lastPolledAt = None, req_foreignBookId = None, req_foreignAuthorId = None,
              req_monitoringOption = None\<rparr> db))"

record only_this_book_data =
  x_userId :: int
  x_foreignBookId :: string
  x_foreignAuthorId :: string
  x_title :: string
  x_authorName :: string
  x_qualityProfileId :: int
  x_notes :: "string option"

definition createOnlyThisBookRequest ::
  "nat \<Rightarrow> only_this_book_data \<Rightarrow> database \<Rightarrow> request \<times> database" where
  "createOnlyThisBookRequest now data db =
     insertRequest
       \<lparr>req_id = 0, req_userId = x_userId data, req_bookId = x_foreignBookId data,
        req_status = pending, req_qualityProfileId = x_qualityProfileId data,
        req_bookshelfId = None, req_requestedAt = now, req_processedAt = None,
        req_processedBy = None, req_notes = x_notes data, req_completedAt = None,
        req_lastPolledAt = None, req_foreignBookId = Some (x_foreignBookId data),
        req_foreignAuthorId = Some (x_foreignAuthorId data),
        req_monitoringOption = Some ''specificBook''\<rparr> db"

text \<open>The \<open>data\<close> argument of \<open>updateRequest\<close>: a field left out is \<open>None\<close> and is not
  written.\<close>

record request_update =
  p_status :: "status option"
  p_notes :: "string option"
  p_processedBy :: "int option"
  p_bookshelfId :: "int option"

definition applyUpdate :: "request_update \<Rightarrow> nat \<Rightarrow> request \<Rightarrow> request" where
  "applyUpdate data now r =
     r\<lparr>req_status := (case p_status data of None \<Rightarrow> req_status r | Some s \<Rightarrow> s),
       req_notes := (case p_notes data of None \<Rightarrow> req_notes r | Some n \<Rightarrow> Some n),
       req_processedBy :=
         (case p_processedBy data of None \<Rightarrow> req_processedBy r | Some u \<Rightarrow> Some u),
       req_bookshelfId :=
         (case p_bookshelfId data of None \<Rightarrow> req_bookshelfId r | Some b \<Rightarrow> Some b),
       req_processedAt := Some now\<rparr>"

text \<open>\<open>updateRequest\<close>: \<open>None\<close> stands for the exception \<open>Request not found\<close>.\<close>

definition updateRequest ::
  "int \<Rightarrow> request_update \<Rightarrow> nat \<Rightarrow> database \<Rightarrow> (request \<times> database) option" where
  "updateRequest requestId data now db =
     (let rows = updateWhereId requestId (applyUpdate data now) (db_requests db)
      in case List.find (\<lambda>r. req_id r = requestId) rows of
           None \<Rightarrow> None
         | Some r \<Rightarrow> Some (r, db\<lparr>db_requests := rows\<rparr>))"

definition getRequestById :: "int \<Rightarrow> database \<Rightarrow> request option" where
  "getRequestById requestId db = List.find (\<lambda>r. req_id r = requestId) (db_requests db)"

section \<open>\<open>RequestService.pollProcessingRequests\<close>\<close>

record poll_detail =
  v_requestId :: int
  v_bookTitle :: string
  v_oldStatus :: string
  v_newStatus :: string

record poll_summary =
  checked :: nat
  updated :: nat
  errors :: nat
  details :: "poll_detail list"

text \<open>
  Each selected request is examined once in an invocation, so what the two collaborators
  answer during one invocation is given per request: the outcome of
  \<open>BookService.getBookById(request.bookId)\<close> and the outcome of the fetch of
  \<open>/api/v1/book?authorId=\<close> with the request's \<open>bookshelfId\<close>. The clock is read as one
  value \<open>now\<close> for the whole invocation. The user name and the name of the quality
  profile, which the loop looks up for the text of the notification only, are left out.
\<close>

record poll_env =
  e_book :: "request \<Rightarrow> book_outcome"
  e_authorBooks :: "request \<Rightarrow> library_book list fetched"

record poll_state =
  ps_summary :: poll_summary
  ps_rows :: "request list"
  ps_notices :: "notice list"

definition countError :: "poll_state \<Rightarrow> poll_state" where
  "countError ps = ps\<lparr>ps_summary := (ps_summary ps)\<lparr>errors := errors (ps_summary ps) + 1\<rparr>\<rparr>"

definition touch :: "nat \<Rightarrow> request \<Rightarrow> request" where
  "touch now r = r\<lparr>req_lastPolledAt := Some now\<rparr>"

definition complete :: "nat \<Rightarrow> request \<Rightarrow> request" where
  "complete now r =
     r\<lparr>req_lastPolledAt := Some now, req_status := available, req_completedAt := Some now\<rparr>"

text \<open>The body of the loop over \<open>requestsToPoll\<close>. A missing book takes the \<open>continue\<close>,
  an exception of \<open>getBookById\<close> the \<open>catch\<close>; neither reaches the update of the row.\<close>

definition pollRequest :: "poll_env \<Rightarrow> nat \<Rightarrow> request \<Rightarrow> poll_state \<Rightarrow> poll_state" where
  "pollRequest env now request ps0 =
     (let ps = ps0\<lparr>ps_summary := (ps_summary ps0)\<lparr>checked := checked (ps_summary ps0) + 1\<rparr>\<rparr>
      in case e_book env request of
           Thrown \<Rightarrow> countError ps
         | NoBook \<Rightarrow> countError ps
         | Found book \<Rightarrow>
             (let statusResult =
                    getAuthorBookStatus (e_authorBooks env request) (req_bookId request)
              in if s_status statusResult = is_available
                 then ps\<lparr>ps_summary := (ps_summary ps)
                            \<lparr>updated := updated (ps_summary ps) + 1,
                             details := details (ps_summary ps) @
                               [\<lparr>v_requestId = req_id request, v_bookTitle = k_title book,
                                 v_oldStatus = ''processing'', v_newStatus = ''available''\<rparr>]\<rparr>,
                         ps_notices := ps_notices ps @
                           [\<lparr>t_userIds = [req_userId request], t_type = ''request_available'',
                             t_bookTitle = k_title book\<rparr>],
                         ps_rows := updateWhereId (req_id request) (complete now) (ps_rows ps)\<rparr>
                 else if s_status statusResult = is_error
                 then (countError ps)
                        \<lparr>ps_rows := updateWhereId (req_id request) (touch now) (ps_rows ps)\<rparr>
                 else ps\<lparr>ps_rows := updateWhereId (req_id request) (touch now) (ps_rows ps)\<rparr>))"

definition selected :: "request \<Rightarrow> bool" where
  "selected r = (req_status r = processing \<and> req_bookshelfId r \<noteq> None)"

definition noPoll :: "poll_summary" where
  "noPoll = \<lparr>checked = 0, updated = 0, errors = 0, details = []\<rparr>"

definition pollProcessingRequests ::
  "poll_env \<Rightarrow> nat \<Rightarrow> database \<Rightarrow> poll_summary \<times> database \<times> notice list" where
  "pollProcessingRequests env now db =
     (if notConfigured db then (noPoll, db, [])
      else
        (let requestsToPoll = filter selected (db_requests db)
         in if requestsToPoll = [] then (noPoll, db, [])
            else
              (let ps = foldl (\<lambda>ps request. pollRequest env now request ps)
                          \<lparr>ps_summary = noPoll, ps_rows = db_requests db, ps_notices = []\<rparr>
                          requestsToPoll
               in (ps_summary ps, db\<lparr>db_requests := ps_rows ps\<rparr>, ps_notices ps))))"

section \<open>The route \<open>POST /api/requests/[id]/approve\<close>\<close>

datatype api_response = JsonRequest request | JsonError nat string

text \<open>\<open>book.author || 'Unknown Author'\<close> and \<open>book.isbn13 || book.isbn\<close>.\<close>

definition orElse :: "string option \<Rightarrow> string option \<Rightarrow> string option" where
  "orElse a b = (if falsy a then b else a)"

definition bookDataOf :: "book_details \<Rightarrow> request \<Rightarrow> book_data" where
  "bookDataOf book existingRequest =
     \<lparr>d_title = k_title book,
      d_author =
        (case k_author book of
           None \<Rightarrow> ''Unknown Author''
         | Some a \<Rightarrow> if a = [] then ''Unknown Author'' else a),
      d_isbn = orElse (k_isbn13 book) (k_isbn book),
      d_monitored = Some True,
      d_qualityProfileId = req_qualityProfileId existingRequest\<rparr>"

definition getAdminUserIds :: "database \<Rightarrow> int list" where
  "getAdminUserIds db = map u_id (filter u_admin (db_users db))"

record 'w approval =
  ap_response :: api_response
  ap_db :: database
  ap_session :: "'w session"
  ap_notices :: "notice list"

text \<open>
  The handler after \<open>requireAdmin\<close> has let the administrator \<open>adminId\<close> through and the
  id in the path has been parsed. An exception on the way is caught at the end of the
  handler and answered with status 500.
\<close>

definition approve ::
  "'w bookshelf \<Rightarrow> (string \<Rightarrow> book_outcome) \<Rightarrow> nat \<Rightarrow> int \<Rightarrow> int \<Rightarrow> database \<Rightarrow> 'w session
     \<Rightarrow> 'w approval" where
  "approve bs getBookById now adminId requestId db st =
     (case getRequestById requestId db of
        None \<Rightarrow>
          \<lparr>ap_response = JsonError 404 ''Request not found'', ap_db = db, ap_session = st,
           ap_notices = []\<rparr>
      | Some existingRequest \<Rightarrow>
        (case getBookById (req_bookId existingRequest) of
           Thrown \<Rightarrow>
             \<lparr>ap_response = JsonError 500 ''Failed to approve request'', ap_db = db,
              ap_session = st, ap_notices = []\<rparr>
         | NoBook \<Rightarrow>
             \<lparr>ap_response = JsonError 404 ''Book not found'', ap_db = db, ap_session = st,
              ap_notices = []\<rparr>
         | Found book \<Rightarrow>
             if notConfigured db
             then
               (case updateRequest requestId
                       \<lparr>p_status = Some approved, p_notes = None, p_processedBy = Some adminId,
                        p_bookshelfId = None\<rparr> now db of
                  None \<Rightarrow>
                    \<lparr>ap_response = JsonError 500 ''Failed to approve request'', ap_db = db,
                     ap_session = st, ap_notices = []\<rparr>
                | Some (updatedRequest, db') \<Rightarrow>
                    \<lparr>ap_response = JsonRequest updatedRequest, ap_db = db', ap_session = st,
                     ap_notices = []\<rparr>)
             else
               (case addBook bs (bookDataOf book existingRequest) st of
                  (result, st1) \<Rightarrow>
                    if \<not> r_success result
                    then
                      (case getQualityProfiles bs st1 of
                         (profiles, st2) \<Rightarrow>
                           \<lparr>ap_response = JsonError 500
                              (''Failed to add book to Bookshelf: '' @
                               (case r_error result of None \<Rightarrow> ''undefined'' | Some e \<Rightarrow> e)),
                            ap_db = db, ap_session = st2,
                            ap_notices =
                              [\<lparr>t_userIds = getAdminUserIds db, t_type = ''bookshelf_error'',
                                t_bookTitle = k_title book\<rparr>]\<rparr>)
                    else
                      (case updateRequest requestId
                              \<lparr>p_status = Some processing, p_notes = None,
                               p_processedBy = Some adminId,
                               p_bookshelfId = r_bookshelfId result\<rparr> now db of
                         None \<Rightarrow>
                           \<lparr>ap_response = JsonError 500 ''Failed to approve request'', ap_db = db,
                            ap_session = st1, ap_notices = []\<rparr>
                       | Some (updatedRequest, db') \<Rightarrow>
                           (case getQualityProfiles bs st1 of
                              (profiles, st2) \<Rightarrow>
                                \<lparr>ap_response = JsonRequest updatedRequest, ap_db = db',
                                 ap_session = st2,
                                 ap_notices =
                                   [\<lparr>t_userIds = [req_userId existingRequest],
                                     t_type = ''request_approved'',
                                     t_bookTitle = k_title book\<rparr>]\<rparr>)))))"

section \<open>The second copy of \<open>addBook\<close>\<close>

text \<open>
  The repository holds a second copy of \<open>BookshelfService\<close>, after \<open>BookService\<close> in
  \<open>lib/services/book.service.ts\<close>. Two steps of its \<open>addBook\<close> that the copy in
  \<open>bookshelf.service.ts\<close> does not have are modelled here, to compare the copies: the
  book lookup with its fallback, and the replacement of the author found at step 1 by
  the author of the matched book.
\<close>

text \<open>\<open>bookData.isbn || `${bookData.title} ${bookData.author}`\<close>.\<close>

definition titleAndAuthor :: "book_data \<Rightarrow> string" where
  "titleAndAuthor bookData = d_title bookData @ '' '' @ d_author bookData"

definition bookSearchQuery2 :: "book_data \<Rightarrow> string" where
  "bookSearchQuery2 bookData =
     (case d_isbn bookData of
        None \<Rightarrow> titleAndAuthor bookData
      | Some isbn \<Rightarrow> if isbn = [] then titleAndAuthor bookData else isbn)"

text \<open>The lookup and, when \<open>bookResults.length === 0 && bookData.isbn\<close>, the fallback
  lookup by title and author; a fallback response that is not ok keeps the empty result.
  \<open>Inl\<close> is the value \<open>addBook\<close> returns at once.\<close>

definition lookupBooks2 ::
  "'w bookshelf \<Rightarrow> book_data \<Rightarrow> 'w session \<Rightarrow> (add_result + book_resource list) \<times> 'w session"
  where
  "lookupBooks2 bs bookData st =
     (case fetchBookLookup bs (bookSearchQuery2 bookData) st of
        (Rejected msg, st1) \<Rightarrow> (Inl (failed msg), st1)
      | (Refused status statusText body, st1) \<Rightarrow> (Inl (failed ''Failed to lookup book''), st1)
      | (Answered bookResults, st1) \<Rightarrow>
          if bookResults = [] \<and> \<not> falsy (d_isbn bookData)
          then
            (case fetchBookLookup bs (titleAndAuthor bookData) st1 of
               (Rejected msg, st2) \<Rightarrow> (Inl (failed msg), st2)
             | (Refused status statusText body, st2) \<Rightarrow> (Inr bookResults, st2)
             | (Answered fallbackResults, st2) \<Rightarrow> (Inr fallbackResults, st2))
          else (Inr bookResults, st1))"

text \<open>\<open>bookMatch.author?.foreignAuthorId || bookMatch.foreignAuthorId\<close> and the block
  under the comment \<open>CRITICAL FIX: Use the foreignAuthorId associated with the found
  book!\<close>.\<close>

definition bookAuthorId :: "book_resource \<Rightarrow> string option" where
  "bookAuthorId bookMatch =
     orElse (map_option e_foreignAuthorId (b_author bookMatch)) (b_foreignAuthorId bookMatch)"

text \<open>\<open>a || b\<close> with a string \<open>b\<close> that is always there.\<close>

definition orDefault :: "string option \<Rightarrow> string \<Rightarrow> string" where
  "orDefault a b = (case a of None \<Rightarrow> b | Some s \<Rightarrow> if s = [] then b else s)"

definition reconcileAuthor2 :: "author_resource \<Rightarrow> book_resource \<Rightarrow> author_resource" where
  "reconcileAuthor2 authorMetadata bookMatch =
     (if \<not> falsy (bookAuthorId bookMatch) \<and>
         bookAuthorId bookMatch \<noteq> Some (a_foreignAuthorId authorMetadata)
      then authorMetadata
             \<lparr>a_foreignAuthorId :=
                orDefault (bookAuthorId bookMatch) (a_foreignAuthorId authorMetadata),
              a_authorName :=
                orDefault (orElse (map_option e_authorName (b_author bookMatch))
                                  (b_authorName bookMatch))
                          (a_authorName authorMetadata)\<rparr>
      else authorMetadata)"

section \<open>What one poll does to one request\<close>

text \<open>The three ways the loop body can end for a request, read off \<open>pollRequest\<close>: the
  request is found available, the examination counts as an error, and the function the
  row of the request is updated with.\<close>

definition becomesAvailable :: "poll_env \<Rightarrow> request \<Rightarrow> bool" where
  "becomesAvailable env r =
     (case e_book env r of
        Found book \<Rightarrow>
          s_status (getAuthorBookStatus (e_authorBooks env r) (req_bookId r)) = is_available
      | NoBook \<Rightarrow> False
      | Thrown \<Rightarrow> False)"

definition pollFails :: "poll_env \<Rightarrow> request \<Rightarrow> bool" where
  "pollFails env r =
     (case e_book env r of
        Found book \<Rightarrow>
          s_status (getAuthorBookStatus (e_authorBooks env r) (req_bookId r)) = is_error
      | NoBook \<Rightarrow> True
      | Thrown \<Rightarrow> True)"

definition rowChange :: "poll_env \<Rightarrow> nat \<Rightarrow> request \<Rightarrow> request \<Rightarrow> request" where
  "rowChange env now r =
     (case e_book env r of
        Found book \<Rightarrow>
          if s_status (getAuthorBookStatus (e_authorBooks env r) (req_bookId r)) = is_available
          then complete now else touch now
      | NoBook \<Rightarrow> (\<lambda>row. row)
      | Thrown \<Rightarrow> (\<lambda>row. row))"

definition pollRow :: "poll_env \<Rightarrow> nat \<Rightarrow> request \<Rightarrow> request" where
  "pollRow env now r = (if selected r then rowChange env now r r else r)"

text \<open>A run of polls, one after the other, each with its own answers and clock.\<close>

definition pollAgain :: "database \<Rightarrow> poll_env \<times> nat \<Rightarrow> database" where
  "pollAgain db p = fst (snd (pollProcessingRequests (fst p) (snd p) db))"

definition pollMany :: "(poll_env \<times> nat) list \<Rightarrow> database \<Rightarrow> database" where
  "pollMany polls db = foldl pollAgain db polls"

section \<open>The states the life cycle can reach\<close>

text \<open>
  The databases that creation, approval and polling produce, starting from an empty
  request table, against one external system \<open>bs\<close> in any of its states. The settings
  and the users may change at any time. The invariant of the claims is about these
  databases.
\<close>

definition tableOk :: "database \<Rightarrow> bool" where
  "tableOk db =
     (distinct (map req_id (db_requests db)) \<and>
      list_all (\<lambda>r. req_id r \<le> db_seq db) (db_requests db) \<and>
      list_all (\<lambda>r. req_status r \<noteq> available \<or> req_bookshelfId r \<noteq> None) (db_requests db))"

inductive reachable :: "'w bookshelf \<Rightarrow> database \<Rightarrow> bool" for bs :: "'w bookshelf" where
  start: "reachable bs \<lparr>db_requests = [], db_seq = 0, db_settings = settings, db_users = users\<rparr>"
| configure: "reachable bs db \<Longrightarrow> reachable bs (db\<lparr>db_settings := settings, db_users := users\<rparr>)"
| create: "reachable bs db \<Longrightarrow> createRequest getBookById now data db = Inr (created, db') \<Longrightarrow>
     reachable bs db'"
| createOnly: "reachable bs db \<Longrightarrow> createOnlyThisBookRequest now only db = (created, db') \<Longrightarrow>
     reachable bs db'"
| approval: "reachable bs db \<Longrightarrow>
     reachable bs (ap_db (approve bs getBookById now adminId requestId db st))"
| poll: "reachable bs db \<Longrightarrow> reachable bs (fst (snd (pollProcessingRequests env now db)))"

section \<open>A library on the other side\<close>

text \<open>
  Two submissions are two runs of \<open>addBook\<close> against an external system that remembers
  the first. The library modelled here is the external system as the interface of the
  service describes it: it keeps the authors registered so far, \<open>POST /author\<close>
  registers an author under a new id and refuses an author whose \<open>foreignAuthorId\<close> is
  already registered with status 400 and the validator's name in the body, and a lookup
  answers from a fixed catalogue of the metadata provider and lists a registered author
  as the library holds it, with the id the library gave. Book lookups answer from a
  fixed catalogue, there is one root folder, and nothing fails.
\<close>

definition listed :: "author_resource list \<Rightarrow> author_resource \<Rightarrow> author_resource" where
  "listed lib a =
     (case List.find (\<lambda>r. a_foreignAuthorId r = a_foreignAuthorId a) lib of
        Some r \<Rightarrow> r
      | None \<Rightarrow> a)"

definition registration :: "author_resource list \<Rightarrow> author_to_add \<Rightarrow> author_resource" where
  "registration lib body =
     \<lparr>a_id = int (length lib) + 1, a_foreignAuthorId = n_foreignAuthorId body,
      a_authorName = n_authorName body\<rparr>"

definition alreadyAdded :: string where
  "alreadyAdded = ''AuthorExistsValidator: This author has already been added''"

definition libraryShelf ::
  "(string \<Rightarrow> author_resource list) \<Rightarrow> (string \<Rightarrow> book_resource list)
     \<Rightarrow> author_resource list bookshelf" where
  "libraryShelf authors books =
     \<lparr>author_lookup = (\<lambda>term lib. (Answered (map (listed lib) (authors term)), lib)),
      book_lookup = (\<lambda>term lib. (Answered (books term), lib)),
      root_folders = (\<lambda>lib. (Answered [\<lparr>f_path = ''/books''\<rparr>], lib)),
      post_author = (\<lambda>body lib.
        if List.find (\<lambda>r. a_foreignAuthorId r = n_foreignAuthorId body) lib \<noteq> None
        then (Refused 400 ''Bad Request'' alreadyAdded, lib)
        else (Answered (registration lib body), lib @ [registration lib body])),
      quality_profiles = (\<lambda>lib. (Answered [], lib))\<rparr>"

section \<open>Test doubles\<close>

text \<open>
  Catalogues, databases and answers of a poll, used where a statement is evaluated at a
  concrete input. They are not part of the service.
\<close>

definition demoAuthors :: "string \<Rightarrow> author_resource list" where
  "demoAuthors term =
     (if term = ''J.R.R. Tolkien''
      then [\<lparr>a_id = 0, a_foreignAuthorId = ''A-tolkien'', a_authorName = ''J.R.R. Tolkien''\<rparr>]
      else if term = ''Jane Doe''
      then [\<lparr>a_id = 0, a_foreignAuthorId = ''A1'', a_authorName = ''Jane Doe''\<rparr>]
      else if term = ''Frank Herbert''
      then [\<lparr>a_id = 0, a_foreignAuthorId = ''A-herbert'', a_authorName = ''Frank Herbert''\<rparr>]
      else [])"

definition demoBooks :: "string \<Rightarrow> book_resource list" where
  "demoBooks term =
     (if term = ''The Hobbit''
      then [\<lparr>b_title = ''The Hobbit'', b_foreignBookId = ''B-hobbit'',
              b_author = Some \<lparr>e_foreignAuthorId = ''A-tolkien'', e_authorName = ''J.R.R. Tolkien''\<rparr>,
      b_foreignAuthorId = None, b_authorName = None\<rparr>]
      else if term = ''Night Train''
      then [\<lparr>b_title = ''Night Train'', b_foreignBookId = ''B-night'',
              b_author = Some \<lparr>e_foreignAuthorId = ''A2'', e_authorName = ''Jane Q. Doe''\<rparr>,
      b_foreignAuthorId = None, b_authorName = None\<rparr>]
      else if term = ''Dune'' \<or> term = ''Dune Frank Herbert''
      then [\<lparr>b_title = ''Dune'', b_foreignBookId = ''B-dune'',
              b_author = Some \<lparr>e_foreignAuthorId = ''A-herbert'', e_authorName = ''Frank Herbert''\<rparr>,
      b_foreignAuthorId = None, b_authorName = None\<rparr>]
      else [])"

definition demoShelf :: "author_resource list bookshelf" where
  "demoShelf = libraryShelf demoAuthors demoBooks"

definition hobbitData :: book_data where
  "hobbitData =
     \<lparr>d_title = ''The Hobbit'', d_author = ''J.R.R. Tolkien'', d_isbn = None,
      d_monitored = Some True, d_qualityProfileId = 1\<rparr>"






definition nightTrainData :: book_data where
  "nightTrainData =
     \<lparr>d_title = ''Night Train'', d_author = ''Jane Doe'', d_isbn = None,
      d_monitored = Some True, d_qualityProfileId = 1\<rparr>"

definition duneData :: book_data where
  "duneData =
     \<lparr>d_title = ''Dune'', d_author = ''Frank Herbert'', d_isbn = None,
      d_monitored = Some True, d_qualityProfileId = 1\<rparr>"

text \<open>A configured database with three requests in \<open>processing\<close>, and the answers of
  one poll: the book of request 1 has no file yet, the fetch for request 2 fails, the book
  of request 3 has three files.\<close>

definition demoSettings :: "(string \<times> string) list" where
  "demoSettings = [(''bookshelf_url'', ''http://bookshelf:8787''), (''bookshelf_api_key'', ''secret'')]"

definition processingRequest :: "int \<Rightarrow> string \<Rightarrow> request" where
  "processingRequest i bookId =
     \<lparr>req_id = i, req_userId = 10, req_bookId = bookId, req_status = processing,
      req_qualityProfileId = 1, req_bookshelfId = Some 7, req_requestedAt = 100,
      req_processedAt = Some 200, req_processedBy = Some 1, req_notes = None,
      req_completedAt = None, req_lastPolledAt = None, req_foreignBookId = None,
      req_foreignAuthorId = None, req_monitoringOption = None\<rparr>"

definition demoDb :: database where
  "demoDb =
     \<lparr>db_requests = [processingRequest 1 ''B1'', processingRequest 2 ''B2'',
                     processingRequest 3 ''B3''],
      db_seq = 3, db_settings = demoSettings, db_users = []\<rparr>"

definition demoBook :: book_details where
  "demoBook = \<lparr>k_title = ''A Book'', k_author = Some ''An Author'', k_isbn = None, k_isbn13 = None\<rparr>"

definition batchEnv :: poll_env where
  "batchEnv =
     \<lparr>e_book = (\<lambda>r. Found demoBook),
      e_authorBooks = (\<lambda>r.
        if req_id r = 2 then Rejected ''fetch failed''
        else Answered [\<lparr>l_foreignBookId = req_bookId r,
                         l_bookFileCount = Some (if req_id r = 3 then 3 else 0),
                         l_grabbed = False, l_monitored = True\<rparr>])\<rparr>"

text \<open>The answers of a poll in which every book has \<open>n\<close> files, and of a poll in which
  \<open>getBookById\<close> finds no book.\<close>

definition filesEnv :: "nat \<Rightarrow> poll_env" where
  "filesEnv n =
     \<lparr>e_book = (\<lambda>r. Found demoBook),
      e_authorBooks = (\<lambda>r.
        Answered [\<lparr>l_foreignBookId = req_bookId r, l_bookFileCount = Some n,
                    l_grabbed = False, l_monitored = True\<rparr>])\<rparr>"

definition noBookEnv :: poll_env where
  "noBookEnv = \<lparr>e_book = (\<lambda>r. NoBook), e_authorBooks = (\<lambda>r. Answered [])\<rparr>"

definition oneDb :: database where
  "oneDb =
     \<lparr>db_requests = [processingRequest 1 ''B1''], db_seq = 1, db_settings = demoSettings,
      db_users = []\<rparr>"

text \<open>A request on its way: created in an empty, configured database, approved against
  the demo library, and polled once the book has three files. And a database without
  settings that holds one pending request.\<close>

definition hobbitDetails :: book_details where
  "hobbitDetails =
     \<lparr>k_title = ''The Hobbit'', k_author = Some ''J.R.R. Tolkien'', k_isbn = None,
      k_isbn13 = None\<rparr>"

definition hobbitRequest :: request where
  "hobbitRequest =
     \<lparr>req_id = 1, req_userId = 10, req_bookId = ''B-hobbit'', req_status = pending,
      req_qualityProfileId = 1, req_bookshelfId = None, req_requestedAt = 100,
      req_processedAt = None, req_processedBy = None, req_notes = None,
      req_completedAt = None, req_lastPolledAt = None, req_foreignBookId = None,
      req_foreignAuthorId = None, req_monitoringOption = None\<rparr>"

definition hobbitFound :: "string \<Rightarrow> book_outcome" where
  "hobbitFound bookId = Found hobbitDetails"

definition nothingFound :: "string \<Rightarrow> book_outcome" where
  "nothingFound bookId = NoBook"

definition stage0 :: database where
  "stage0 = \<lparr>db_requests = [], db_seq = 0, db_settings = demoSettings, db_users = []\<rparr>"

definition stage1 :: database where
  "stage1 = stage0\<lparr>db_requests := [hobbitRequest], db_seq := 1\<rparr>"

definition stage2 :: database where
  "stage2 = ap_db (approve demoShelf hobbitFound 200 2 1 stage1 ([], []))"

definition stage3 :: database where
  "stage3 = fst (snd (pollProcessingRequests (filesEnv 3) 300 stage2))"

definition bareDb :: database where
  "bareDb = \<lparr>db_requests = [hobbitRequest], db_seq = 1, db_settings = [], db_users = []\<rparr>"

section \<open>One poll, row by row\<close>

lemma pollRequest_rows:
  "ps_rows (pollRequest env now b ps) = updateWhereId (req_id b) (rowChange env now b) (ps_rows ps)"
  by (simp add: pollRequest_def rowChange_def countError_def updateWhereId_def Let_def
           split: book_outcome.splits)

lemma pollRequest_checked:
  "checked (ps_summary (pollRequest env now b ps)) = checked (ps_summary ps) + 1"
  by (simp add: pollRequest_def countError_def Let_def split: book_outcome.splits)

lemma pollRequest_updated:
  "updated (ps_summary (pollRequest env now b ps)) =
     updated (ps_summary ps) + (if becomesAvailable env b then 1 else 0)"
  by (simp add: pollRequest_def countError_def becomesAvailable_def Let_def split: book_outcome.splits)

lemma pollRequest_errors:
  "errors (ps_summary (pollRequest env now b ps)) =
     errors (ps_summary ps) + (if pollFails env b then 1 else 0)"
  by (simp add: pollRequest_def countError_def pollFails_def Let_def split: book_outcome.splits)

lemma pollRequest_details:
  "map v_requestId (details (ps_summary (pollRequest env now b ps))) =
     map v_requestId (details (ps_summary ps)) @ (if becomesAvailable env b then [req_id b] else [])"
  by (simp add: pollRequest_def countError_def becomesAvailable_def Let_def split: book_outcome.splits)

lemma foldl_checked:
  "checked (ps_summary (foldl (\<lambda>ps request. pollRequest env now request ps) ps bs)) =
     checked (ps_summary ps) + length bs"
  by (induction bs arbitrary: ps) (simp_all add: pollRequest_checked)

lemma foldl_updated:
  "updated (ps_summary (foldl (\<lambda>ps request. pollRequest env now request ps) ps bs)) =
     updated (ps_summary ps) + length (filter (becomesAvailable env) bs)"
  by (induction bs arbitrary: ps) (simp_all add: pollRequest_updated)

lemma foldl_errors:
  "errors (ps_summary (foldl (\<lambda>ps request. pollRequest env now request ps) ps bs)) =
     errors (ps_summary ps) + length (filter (pollFails env) bs)"
  by (induction bs arbitrary: ps) (simp_all add: pollRequest_errors)

lemma foldl_details:
  "map v_requestId (details (ps_summary (foldl (\<lambda>ps request. pollRequest env now request ps) ps bs))) =
     map v_requestId (details (ps_summary ps)) @ map req_id (filter (becomesAvailable env) bs)"
  by (induction bs arbitrary: ps) (simp_all add: pollRequest_details)

lemma foldl_rows:
  "ps_rows (foldl (\<lambda>ps request. pollRequest env now request ps) ps bs) =
     foldl (\<lambda>rows b. updateWhereId (req_id b) (rowChange env now b) rows) (ps_rows ps) bs"
  by (induction bs arbitrary: ps) (simp_all add: pollRequest_rows)

lemma rowChange_id: "req_id (rowChange env now b r) = req_id r"
  by (simp add: rowChange_def touch_def complete_def split: book_outcome.splits)

lemma updateWhereId_ids: "(\<And>r. req_id (f r) = req_id r) \<Longrightarrow> map req_id (updateWhereId i f rows) = map req_id rows"
  by (induction rows) (simp_all add: updateWhereId_def)

lemma updateWhereId_distinct:
  assumes "distinct (map req_id rows)" "b \<in> set rows"
  shows "updateWhereId (req_id b) f rows = map (\<lambda>r. if r = b then f r else r) rows"
proof -
  have "\<And>r. r \<in> set rows \<Longrightarrow> (req_id r = req_id b) = (r = b)"
    using assms by (meson distinct_map inj_onD)
  then show ?thesis by (simp add: updateWhereId_def)
qed

lemma foldl_update_rows:
  assumes "distinct (map req_id rows)" "set bs \<subseteq> set rows" "distinct bs"
    and "\<And>b r. req_id (g b r) = req_id r"
  shows "foldl (\<lambda>rows b. updateWhereId (req_id b) (g b) rows) rows bs =
           map (\<lambda>r. if r \<in> set bs then g r r else r) rows"
  using assms(1-3)
proof (induction bs arbitrary: rows)
  case Nil
  then show ?case by simp
next
  case (Cons b bs)
  let ?rows1 = "updateWhereId (req_id b) (g b) rows"
  have b_in: "b \<in> set rows" using Cons.prems by simp
  have r1: "?rows1 = map (\<lambda>r. if r = b then g b r else r) rows"
    using updateWhereId_distinct [OF Cons.prems(1) b_in] .
  have ids: "map req_id ?rows1 = map req_id rows"
    by (rule updateWhereId_ids) (rule assms(4))
  have d1: "distinct (map req_id ?rows1)" using ids Cons.prems(1) by simp
  have inj: "\<And>x y. x \<in> set rows \<Longrightarrow> y \<in> set rows \<Longrightarrow> req_id x = req_id y \<Longrightarrow> x = y"
    using Cons.prems(1) by (meson distinct_map inj_onD)
  have sub: "set bs \<subseteq> set ?rows1"
  proof
    fix x assume x: "x \<in> set bs"
    then have "x \<in> set rows" "x \<noteq> b" using Cons.prems by auto
    then show "x \<in> set ?rows1" unfolding r1 by force
  qed
  have notin: "g b b \<notin> set bs"
  proof
    assume a: "g b b \<in> set bs"
    then have "g b b \<in> set rows" using Cons.prems by auto
    moreover have "req_id (g b b) = req_id b" by (rule assms(4))
    ultimately have "g b b = b" using inj b_in by blast
    with a Cons.prems(3) show False by simp
  qed
  have "foldl (\<lambda>rows b. updateWhereId (req_id b) (g b) rows) rows (b # bs) =
        foldl (\<lambda>rows b. updateWhereId (req_id b) (g b) rows) ?rows1 bs" by simp
  also have "\<dots> = map (\<lambda>r. if r \<in> set bs then g r r else r) ?rows1"
    using Cons.IH [OF d1 sub] Cons.prems(3) by simp
  also have "\<dots> = map (\<lambda>r. if r \<in> set (b # bs) then g r r else r) rows"
    unfolding r1 using notin Cons.prems(3) by auto
  finally show ?case .
qed

lemma poll_rows:
  assumes "distinct (map req_id (db_requests db))"
  shows "db_requests (fst (snd (pollProcessingRequests env now db))) =
           (if notConfigured db then db_requests db else map (pollRow env now) (db_requests db))"
proof -
  let ?rows = "db_requests db"
  let ?bs = "filter selected ?rows"
  have d: "distinct ?rows" using assms by (simp add: distinct_map)
  have m: "foldl (\<lambda>rows b. updateWhereId (req_id b) (rowChange env now b) rows) ?rows ?bs =
           map (\<lambda>r. if r \<in> set ?bs then rowChange env now r r else r) ?rows"
    by (rule foldl_update_rows [OF assms]) (simp_all add: d rowChange_id)
  have e: "map (\<lambda>r. if r \<in> set ?bs then rowChange env now r r else r) ?rows = map (pollRow env now) ?rows"
    by (simp add: pollRow_def)
  have n: "?bs = [] \<Longrightarrow> map (pollRow env now) ?rows = ?rows"
    by (simp add: pollRow_def filter_empty_conv map_idI)
  show ?thesis
    using m e n by (simp add: pollProcessingRequests_def Let_def foldl_rows)
qed


lemma poll_other_fields:
  "db_seq (fst (snd (pollProcessingRequests env now db))) = db_seq db"
  "db_settings (fst (snd (pollProcessingRequests env now db))) = db_settings db"
  "db_users (fst (snd (pollProcessingRequests env now db))) = db_users db"
  by (simp_all add: pollProcessingRequests_def Let_def)

lemma poll_ids:
  "map req_id (db_requests (fst (snd (pollProcessingRequests env now db)))) = map req_id (db_requests db)"
proof -
  have "\<And>rows. map req_id (foldl (\<lambda>rows b. updateWhereId (req_id b) (rowChange env now b) rows) rows bs) = map req_id rows" for bs
    by (induction bs) (simp_all add: updateWhereId_ids rowChange_id)
  then show ?thesis by (simp add: pollProcessingRequests_def Let_def foldl_rows)
qed

lemma poll_summary_counts:
  "\<not> notConfigured db \<Longrightarrow>
   checked (fst (pollProcessingRequests env now db)) = length (filter selected (db_requests db)) \<and>
   updated (fst (pollProcessingRequests env now db)) =
     length (filter (becomesAvailable env) (filter selected (db_requests db))) \<and>
   errors (fst (pollProcessingRequests env now db)) =
     length (filter (pollFails env) (filter selected (db_requests db)))"
  by (auto simp: pollProcessingRequests_def Let_def foldl_checked foldl_updated foldl_errors
        noPoll_def filter_empty_conv)

lemma pollRow_status:
  "req_status (pollRow env now r) =
     (if selected r \<and> becomesAvailable env r then available else req_status r)"
  by (simp add: pollRow_def rowChange_def becomesAvailable_def touch_def complete_def
           split: book_outcome.splits)

lemma pollAgain_rows:
  "distinct (map req_id (db_requests db)) \<Longrightarrow>
   db_requests (pollAgain db p) =
     (if notConfigured db then db_requests db else map (pollRow (fst p) (snd p)) (db_requests db))"
  by (simp add: pollAgain_def poll_rows)

lemma pollAgain_distinct:
  "distinct (map req_id (db_requests db)) \<Longrightarrow> distinct (map req_id (db_requests (pollAgain db p)))"
  by (simp add: pollAgain_def poll_ids)

lemma pollAgain_keeps:
  assumes "distinct (map req_id (db_requests db))" "x \<in> set (db_requests db)" "\<not> selected x"
  shows "x \<in> set (db_requests (pollAgain db p))"
proof (cases "notConfigured db")
  case True
  with assms show ?thesis by (simp add: pollAgain_rows)
next
  case False
  have "pollRow (fst p) (snd p) x = x" using assms(3) by (simp add: pollRow_def)
  then have "x \<in> pollRow (fst p) (snd p) ` set (db_requests db)" using assms(2) by force
  with False assms(1) show ?thesis by (simp add: pollAgain_rows)
qed

lemma pollMany_keeps:
  "distinct (map req_id (db_requests db)) \<Longrightarrow> x \<in> set (db_requests db) \<Longrightarrow> \<not> selected x \<Longrightarrow>
   x \<in> set (db_requests (pollMany later db)) \<and> distinct (map req_id (db_requests (pollMany later db)))"
proof (induction later arbitrary: db)
  case Nil
  then show ?case by (simp add: pollMany_def)
next
  case (Cons p later)
  have "pollMany (p # later) db = pollMany later (pollAgain db p)" by (simp add: pollMany_def)
  moreover have "x \<in> set (db_requests (pollMany later (pollAgain db p))) \<and>
        distinct (map req_id (db_requests (pollMany later (pollAgain db p))))"
    using Cons.IH [OF pollAgain_distinct [OF Cons.prems(1)] pollAgain_keeps [OF Cons.prems]
                      Cons.prems(3)] .
  ultimately show ?case by simp
qed

lemma poll_notConfigured:
  "notConfigured (fst (snd (pollProcessingRequests env now db))) = notConfigured db"
  by (simp add: notConfigured_def settingValue_def poll_other_fields)

lemma status_zero_files:
  assumes "List.find (\<lambda>b. l_foreignBookId b = bookId) books = Some entry"
    and "(case l_bookFileCount entry of None \<Rightarrow> 0 | Some n \<Rightarrow> n) = 0"
  shows "s_status (getAuthorBookStatus (Answered books) bookId) \<noteq> is_available"
  using assms by (simp add: getAuthorBookStatus_def Let_def)

lemma status_some_files:
  assumes "List.find (\<lambda>b. l_foreignBookId b = bookId) books = Some entry"
    and "l_bookFileCount entry = Some n" and "0 < n"
  shows "s_status (getAuthorBookStatus (Answered books) bookId) = is_available"
  using assms by (simp add: getAuthorBookStatus_def Let_def)

lemma foldl_details_ids:
  "map v_requestId (details (fst (pollProcessingRequests env now db))) =
     (if notConfigured db then []
      else map req_id (filter (becomesAvailable env) (filter selected (db_requests db))))"
  by (auto simp: pollProcessingRequests_def Let_def foldl_details noPoll_def filter_empty_conv)

section \<open>Updating a request\<close>

lemma find_updateWhereId:
  "(\<And>r. req_id (f r) = req_id r) \<Longrightarrow>
   List.find (\<lambda>r. req_id r = i) (updateWhereId i f rows) =
     map_option f (List.find (\<lambda>r. req_id r = i) rows)"
  by (induction rows) (simp_all add: updateWhereId_def)

lemma applyUpdate_id: "req_id (applyUpdate data now r) = req_id r"
  by (simp add: applyUpdate_def)

lemma updateRequest_found:
  "getRequestById requestId db = Some existing \<Longrightarrow>
   updateRequest requestId data now db =
     Some (applyUpdate data now existing,
           db\<lparr>db_requests := updateWhereId requestId (applyUpdate data now) (db_requests db)\<rparr>)"
  by (simp add: updateRequest_def getRequestById_def Let_def find_updateWhereId applyUpdate_id)

section \<open>Submission: the author is already registered\<close>

text \<open>The path of \<open>addBook\<close> through the refusal \<open>already exists\<close>, for any external
  system: the result is decided by the repeated author lookup, and one registration is
  sent.\<close>

lemma addBook_already_registered:
  assumes "lookupAuthor bs (d_author bookData) st0 = (authorMetadata # others, st1)"
    and "fetchBookLookup bs (bookSearchQuery bookData) st1 = (Answered bookResults, st2)"
    and "findBookMatch (d_title bookData) bookResults = Some bookMatch"
    and "getRootFolders bs st2 = (folder # folders, st3)"
    and "fetchPostAuthor bs (authorToAdd authorMetadata bookData bookMatch (f_path folder)) st3 =
           (Refused 400 statusText errorText, st4)"
    and "includes_str errorText ''AuthorExistsValidator''"
    and "lookupAuthor bs (a_authorName authorMetadata) st4 = (existingAuthors, st5)"
  shows "addBook bs bookData st0 =
           (case List.find (\<lambda>a. a_foreignAuthorId a = a_foreignAuthorId authorMetadata)
                   existingAuthors of
              Some existingAuthor \<Rightarrow> (added (a_id existingAuthor), st5)
            | None \<Rightarrow> (failed ''Author exists but could not be found'', st5)) \<and>
         fst st5 = fst st0 @
           [AuthorLookup (d_author bookData), BookLookup (bookSearchQuery bookData), RootFolder,
            PostAuthor (authorToAdd authorMetadata bookData bookMatch (f_path folder)),
            AuthorLookup (a_authorName authorMetadata)]"
proof -
  have r: "addBook bs bookData st0 =
           (case List.find (\<lambda>a. a_foreignAuthorId a = a_foreignAuthorId authorMetadata)
                   existingAuthors of
              Some existingAuthor \<Rightarrow> (added (a_id existingAuthor), st5)
            | None \<Rightarrow> (failed ''Author exists but could not be found'', st5))"
    using assms by (simp add: addBook_def)
  have l1: "fst st1 = fst st0 @ [AuthorLookup (d_author bookData)]"
    using assms(1) by (auto simp: lookupAuthor_def fetchAuthorLookup_def split: prod.splits fetched.splits)
  have l2: "fst st2 = fst st1 @ [BookLookup (bookSearchQuery bookData)]"
    using assms(2) by (auto simp: fetchBookLookup_def split: prod.splits)
  have l3: "fst st3 = fst st2 @ [RootFolder]"
    using assms(4) by (auto simp: getRootFolders_def fetchRootFolders_def split: prod.splits fetched.splits)
  have l4: "fst st4 = fst st3 @ [PostAuthor (authorToAdd authorMetadata bookData bookMatch (f_path folder))]"
    using assms(5) by (auto simp: fetchPostAuthor_def split: prod.splits)
  have l5: "fst st5 = fst st4 @ [AuthorLookup (a_authorName authorMetadata)]"
    using assms(7) by (auto simp: lookupAuthor_def fetchAuthorLookup_def split: prod.splits fetched.splits)
  show ?thesis using r l1 l2 l3 l4 l5 by simp
qed

section \<open>Two submissions of the same book\<close>















section \<open>Submission: which author is registered, and which book lookup is sent\<close>

text \<open>
  Claim C2, evaluated. The author lookup for \<open>Jane Doe\<close> answers with the author
  \<open>A1\<close>; the matched book \<open>Night Train\<close> carries the author \<open>A2\<close>. \<open>addBook\<close> registers
  \<open>A1\<close>, the result of the lookup at step 1, and returns the id the library gives to
  \<open>A1\<close>: the author embedded in the matched book is not read.
\<close>

theorem addBook_registers_lookup_author:
  "addBook demoShelf nightTrainData ([], []) =
     (added 1,
      ([AuthorLookup ''Jane Doe'', BookLookup ''Night Train'', RootFolder,
        PostAuthor
          \<lparr>n_foreignAuthorId = ''A1'', n_authorName = ''Jane Doe'', n_qualityProfileId = 1,
           n_metadataProfileId = 1, n_monitored = True, n_rootFolderPath = ''/books'',
           n_addOptions = \<lparr>o_monitor = ''none'', o_searchForMissingBooks = True,
                            o_monitored = True, o_booksToMonitor = [''B-night'']\<rparr>\<rparr>],
       [\<lparr>a_id = 1, a_foreignAuthorId = ''A1'', a_authorName = ''Jane Doe''\<rparr>])) \<and>
   map b_author (demoBooks ''Night Train'') =
     [Some \<lparr>e_foreignAuthorId = ''A2'', e_authorName = ''Jane Q. Doe''\<rparr>]"
  by code_simp

text \<open>
  Claim C8, evaluated. Without an ISBN the book lookup is sent with the title alone
  (\<open>Dune\<close>, not \<open>Dune Frank Herbert\<close>). With an ISBN that the catalogue does not know the
  lookup is sent once, with the ISBN, and \<open>addBook\<close> fails with
  \<open>Book not found in metadata\<close> without a second lookup, although the catalogue answers
  the query \<open>Dune Frank Herbert\<close>.
\<close>

theorem addBook_book_lookup_query:
  "fst (snd (addBook demoShelf duneData ([], []))) =
     [AuthorLookup ''Frank Herbert'', BookLookup ''Dune'', RootFolder,
      PostAuthor
        \<lparr>n_foreignAuthorId = ''A-herbert'', n_authorName = ''Frank Herbert'',
         n_qualityProfileId = 1, n_metadataProfileId = 1, n_monitored = True,
         n_rootFolderPath = ''/books'',
         n_addOptions = \<lparr>o_monitor = ''none'', o_searchForMissingBooks = True,
                          o_monitored = True, o_booksToMonitor = [''B-dune'']\<rparr>\<rparr>] \<and>
   addBook demoShelf (duneData\<lparr>d_isbn := Some ''9780441013593''\<rparr>) ([], []) =
     (failed ''Book not found in metadata'',
      ([AuthorLookup ''Frank Herbert'', BookLookup ''9780441013593''], [])) \<and>
   map b_title (demoBooks ''Dune Frank Herbert'') = [''Dune'']"
  by code_simp

section \<open>The two copies of \<open>addBook\<close> compared\<close>

text \<open>On the inputs of the two evaluations above, the second copy sends the book lookup
  with title and author and repeats it with title and author after an ISBN lookup without
  result. Its block that replaces the author, applied to the author \<open>A1\<close> of the lookup
  and the book \<open>Night Train\<close>, gives the author \<open>A2\<close> of the book.\<close>

lemma second_copy_query:
  "lookupBooks2 demoShelf duneData ([], []) =
     (Inr (demoBooks ''Dune Frank Herbert''), ([BookLookup ''Dune Frank Herbert''], [])) \<and>
   lookupBooks2 demoShelf (duneData\<lparr>d_isbn := Some ''9780441013593''\<rparr>) ([], []) =
     (Inr (demoBooks ''Dune Frank Herbert''),
      ([BookLookup ''9780441013593'', BookLookup ''Dune Frank Herbert''], []))"
  by code_simp

lemma second_copy_author:
  "map (reconcileAuthor2 \<lparr>a_id = 0, a_foreignAuthorId = ''A1'', a_authorName = ''Jane Doe''\<rparr>)
     (demoBooks ''Night Train'') =
   [\<lparr>a_id = 0, a_foreignAuthorId = ''A2'', a_authorName = ''Jane Q. Doe''\<rparr>]"
  by code_simp

section \<open>Which candidate the matcher selects\<close>

lemma find_Some_split:
  "(List.find P xs = Some x) =
   (\<exists>pre post. xs = pre @ x # post \<and> P x \<and> (\<forall>y\<in>set pre. \<not> P y))"
proof (induction xs)
  case Nil
  then show ?case by simp
next
  case (Cons a xs)
  show ?case
  proof (cases "P a")
    case True
    have "(\<exists>pre post. a # xs = pre @ x # post \<and> P x \<and> (\<forall>y\<in>set pre. \<not> P y)) = (a = x)"
    proof
      assume "\<exists>pre post. a # xs = pre @ x # post \<and> P x \<and> (\<forall>y\<in>set pre. \<not> P y)"
      then obtain pre post where h: "a # xs = pre @ x # post" "\<forall>y\<in>set pre. \<not> P y" by blast
      show "a = x"
      proof (cases pre)
        case Nil
        with h show ?thesis by simp
      next
        case (Cons p ps)
        with h True show ?thesis by auto
      qed
    next
      assume "a = x"
      with True have "a # xs = [] @ x # xs \<and> P x \<and> (\<forall>y\<in>set []. \<not> P y)" by simp
      then show "\<exists>pre post. a # xs = pre @ x # post \<and> P x \<and> (\<forall>y\<in>set pre. \<not> P y)" by blast
    qed
    with True show ?thesis by simp
  next
    case False
    have "(\<exists>pre post. a # xs = pre @ x # post \<and> P x \<and> (\<forall>y\<in>set pre. \<not> P y)) =
          (\<exists>pre post. xs = pre @ x # post \<and> P x \<and> (\<forall>y\<in>set pre. \<not> P y))"
    proof
      assume "\<exists>pre post. a # xs = pre @ x # post \<and> P x \<and> (\<forall>y\<in>set pre. \<not> P y)"
      then obtain pre post where h: "a # xs = pre @ x # post" "P x" "\<forall>y\<in>set pre. \<not> P y" by blast
      show "\<exists>pre post. xs = pre @ x # post \<and> P x \<and> (\<forall>y\<in>set pre. \<not> P y)"
      proof (cases pre)
        case Nil
        with h False show ?thesis by simp
      next
        case (Cons p ps)
        with h have "xs = ps @ x # post \<and> P x \<and> (\<forall>y\<in>set ps. \<not> P y)" by simp
        then show ?thesis by blast
      qed
    next
      assume "\<exists>pre post. xs = pre @ x # post \<and> P x \<and> (\<forall>y\<in>set pre. \<not> P y)"
      then obtain pre post where h: "xs = pre @ x # post" "P x" "\<forall>y\<in>set pre. \<not> P y" by blast
      with False have "a # xs = (a # pre) @ x # post \<and> P x \<and> (\<forall>y\<in>set (a # pre). \<not> P y)" by simp
      then show "\<exists>pre post. a # xs = pre @ x # post \<and> P x \<and> (\<forall>y\<in>set pre. \<not> P y)" by blast
    qed
    with False Cons.IH show ?thesis by simp
  qed
qed

text \<open>
  Claim C3, as amended. The callback of \<open>find\<close> accepts a candidate when any of the four
  strategies holds for it, tried in the order exact title, exact normalized title, raw
  containment, normalized containment; \<open>find\<close> selects the first candidate of the list
  that the callback accepts. The strategies do not rank the candidates: an earlier
  candidate accepted by a later strategy is selected before a later candidate with the
  exact title, and among accepted candidates the list order decides. With no accepted
  candidate nothing is selected.
\<close>

theorem findBookMatch_first_accepted:
  "((findBookMatch searchTitle bookResults = Some b) =
      (\<exists>pre post. bookResults = pre @ b # post \<and> titleMatches searchTitle b \<and>
                  (\<forall>x\<in>set pre. \<not> titleMatches searchTitle x))) \<and>
   ((findBookMatch searchTitle bookResults = None) =
      (\<forall>x\<in>set bookResults. \<not> titleMatches searchTitle x)) \<and>
   (titleMatches searchTitle b =
      (strategy1 searchTitle (b_title b) \<or> strategy2 searchTitle (b_title b) \<or>
       strategy3 searchTitle (b_title b) \<or> strategy4 searchTitle (b_title b)))"
proof -
  have none: "(List.find (titleMatches searchTitle) bookResults = None) =
              (\<forall>x\<in>set bookResults. \<not> titleMatches searchTitle x)"
    by (auto simp: find_None_iff)
  show ?thesis
    unfolding findBookMatch_def find_Some_split none
    by (simp add: titleMatches_def)
qed

theorem findBookMatch_first_accepted_witness:
  "findBookMatch ''The Hobbit''
     [\<lparr>b_title = ''The Hobbit'', b_foreignBookId = ''B1'', b_author = None,
      b_foreignAuthorId = None, b_authorName = None\<rparr>,
      \<lparr>b_title = ''The Hobbit: Annotated Edition'', b_foreignBookId = ''B2'', b_author = None,
      b_foreignAuthorId = None, b_authorName = None\<rparr>]
   = Some \<lparr>b_title = ''The Hobbit'', b_foreignBookId = ''B1'', b_author = None,
      b_foreignAuthorId = None, b_authorName = None\<rparr>"
proof -
  let ?hobbit = "\<lparr>b_title = ''The Hobbit'', b_foreignBookId = ''B1'', b_author = None,
      b_foreignAuthorId = None, b_authorName = None\<rparr>"
  let ?annotated =
    "\<lparr>b_title = ''The Hobbit: Annotated Edition'', b_foreignBookId = ''B2'', b_author = None,
      b_foreignAuthorId = None, b_authorName = None\<rparr>"
  have m: "titleMatches ''The Hobbit'' ?hobbit"
    by (simp add: titleMatches_def strategy1_def)
  have "[?hobbit, ?annotated] = [] @ ?hobbit # [?annotated] \<and> titleMatches ''The Hobbit'' ?hobbit \<and>
        (\<forall>x\<in>set []. \<not> titleMatches ''The Hobbit'' x)"
    using m by simp
  then have "\<exists>pre post. [?hobbit, ?annotated] = pre @ ?hobbit # post \<and>
               titleMatches ''The Hobbit'' ?hobbit \<and>
               (\<forall>x\<in>set pre. \<not> titleMatches ''The Hobbit'' x)"
    by blast
  with findBookMatch_first_accepted [of "''The Hobbit''" "[?hobbit, ?annotated]" ?hobbit]
  show ?thesis by blast
qed

text \<open>
  Claim C3 as stated fails: with the annotated edition listed before the book with the
  exact title, the annotated edition is selected, although the second candidate meets
  the first strategy and the selected one does not.
\<close>

theorem findBookMatch_priority_counterexample:
  "findBookMatch ''The Hobbit''
     [\<lparr>b_title = ''The Hobbit: Annotated Edition'', b_foreignBookId = ''B2'', b_author = None,
      b_foreignAuthorId = None, b_authorName = None\<rparr>,
      \<lparr>b_title = ''The Hobbit'', b_foreignBookId = ''B1'', b_author = None,
      b_foreignAuthorId = None, b_authorName = None\<rparr>]
   = Some \<lparr>b_title = ''The Hobbit: Annotated Edition'', b_foreignBookId = ''B2'', b_author = None,
      b_foreignAuthorId = None, b_authorName = None\<rparr> \<and>
   strategy1 ''The Hobbit'' ''The Hobbit'' \<and>
   \<not> strategy1 ''The Hobbit'' ''The Hobbit: Annotated Edition''"
  by code_simp

section \<open>From \<open>processing\<close> to \<open>available\<close>, once\<close>

text \<open>
  Claim C4. Take a request in \<open>processing\<close> with a \<open>bookshelfId\<close>, in a configured
  database. A poll that finds the book in the author's list with no file leaves the
  request in \<open>processing\<close> (only \<open>lastPolledAt\<close> is written). A later poll that finds
  the book with at least one file sets the status to \<open>available\<close> and \<open>completedAt\<close> to
  the time of that poll. After that the request is not selected any more: through any
  run of later polls the row stays exactly as that poll left it, it is the only row with
  its id, and no later poll reports a transition for it.
\<close>

theorem poll_monotone:
  assumes ids: "distinct (map req_id (db_requests db))"
    and conf: "\<not> notConfigured db"
    and r: "r \<in> set (db_requests db)" "req_status r = processing" "req_bookshelfId r = Some authorId"
    and p1: "e_book env1 r = Found book1" "e_authorBooks env1 r = Answered books1"
            "List.find (\<lambda>b. l_foreignBookId b = req_bookId r) books1 = Some entry1"
            "(case l_bookFileCount entry1 of None \<Rightarrow> 0 | Some n \<Rightarrow> n) = 0"
    and db1: "db1 = fst (snd (pollProcessingRequests env1 t1 db))"
    and p2: "e_book env2 (touch t1 r) = Found book2" "e_authorBooks env2 (touch t1 r) = Answered books2"
            "List.find (\<lambda>b. l_foreignBookId b = req_bookId r) books2 = Some entry2"
            "l_bookFileCount entry2 = Some n" "0 < n"
    and db2: "db2 = fst (snd (pollProcessingRequests env2 t2 db1))"
  shows "touch t1 r \<in> set (db_requests db1) \<and> req_status (touch t1 r) = processing \<and>
         complete t2 (touch t1 r) \<in> set (db_requests db2) \<and>
         req_status (complete t2 (touch t1 r)) = available \<and>
         req_completedAt (complete t2 (touch t1 r)) = Some t2 \<and>
         (\<forall>later. \<forall>x \<in> set (db_requests (pollMany later db2)).
            req_id x = req_id r \<longrightarrow> x = complete t2 (touch t1 r)) \<and>
         (\<forall>later env3 t3.
            complete t2 (touch t1 r) \<in> set (db_requests (pollMany later db2)) \<and>
            req_id r \<notin> set (map v_requestId
              (details (fst (pollProcessingRequests env3 t3 (pollMany later db2))))))"
proof -
  have sel: "selected r" using r by (simp add: selected_def)
  have rc1: "rowChange env1 t1 r = touch t1"
    using p1 status_zero_files [OF p1(3) p1(4)] by (simp add: rowChange_def)
  have rows1: "db_requests db1 = map (pollRow env1 t1) (db_requests db)"
    using poll_rows [OF ids] conf db1 by simp
  have in1: "touch t1 r \<in> set (db_requests db1)"
  proof -
    have "pollRow env1 t1 r = touch t1 r" using sel rc1 by (simp add: pollRow_def)
    then have "touch t1 r \<in> pollRow env1 t1 ` set (db_requests db)" using r(1) by force
    then show ?thesis using rows1 by simp
  qed
  have ids1: "distinct (map req_id (db_requests db1))" using ids db1 by (simp add: poll_ids)
  have conf1: "\<not> notConfigured db1" using conf db1 by (simp add: poll_notConfigured)
  have sel1: "selected (touch t1 r)" using r by (simp add: selected_def touch_def)
  have bid: "req_bookId (touch t1 r) = req_bookId r" by (simp add: touch_def)
  have rc2: "rowChange env2 t2 (touch t1 r) = complete t2"
    using p2 status_some_files [OF p2(3) p2(4) p2(5)] by (simp add: rowChange_def bid)
  have rows2: "db_requests db2 = map (pollRow env2 t2) (db_requests db1)"
    using poll_rows [OF ids1] conf1 db2 by simp
  have in2: "complete t2 (touch t1 r) \<in> set (db_requests db2)"
  proof -
    have "pollRow env2 t2 (touch t1 r) = complete t2 (touch t1 r)"
      using sel1 rc2 by (simp add: pollRow_def)
    then have "complete t2 (touch t1 r) \<in> pollRow env2 t2 ` set (db_requests db1)"
      using in1 by force
    then show ?thesis using rows2 by simp
  qed
  have ids2: "distinct (map req_id (db_requests db2))" using ids1 db2 by (simp add: poll_ids)
  have nsel: "\<not> selected (complete t2 (touch t1 r))" by (simp add: selected_def complete_def)
  have cid: "req_id (complete t2 (touch t1 r)) = req_id r" by (simp add: complete_def touch_def)
  have later: "complete t2 (touch t1 r) \<in> set (db_requests (pollMany later db2)) \<and>
               distinct (map req_id (db_requests (pollMany later db2)))" for later
    by (rule pollMany_keeps [OF ids2 in2 nsel])
  have uniq: "x = complete t2 (touch t1 r)"
    if "x \<in> set (db_requests (pollMany later db2))" "req_id x = req_id r" for later x
  proof -
    have "inj_on req_id (set (db_requests (pollMany later db2)))"
      using later [of later] by (simp add: distinct_map)
    moreover have "req_id x = req_id (complete t2 (touch t1 r))" using that(2) cid by simp
    ultimately show ?thesis using that(1) later [of later] by (meson inj_onD)
  qed
  have quiet: "req_id r \<notin> set (map v_requestId
              (details (fst (pollProcessingRequests env3 t3 (pollMany later db2)))))" for later env3 t3
  proof
    assume a: "req_id r \<in> set (map v_requestId
              (details (fst (pollProcessingRequests env3 t3 (pollMany later db2)))))"
    then obtain x where x: "x \<in> set (db_requests (pollMany later db2))" "selected x" "req_id x = req_id r"
      by (auto simp: foldl_details_ids split: if_splits)
    with uniq [OF x(1) x(3)] nsel show False by simp
  qed
  show ?thesis
    using in1 in2 r(2) later uniq quiet by (simp add: touch_def complete_def)
qed

theorem poll_monotone_witness:
  "processingRequest 1 ''B1'' \<in> set (db_requests oneDb) \<and>
   \<not> notConfigured oneDb \<and>
   touch 500 (processingRequest 1 ''B1'') \<in>
     set (db_requests (fst (snd (pollProcessingRequests (filesEnv 0) 500 oneDb)))) \<and>
   complete 600 (touch 500 (processingRequest 1 ''B1'')) \<in>
     set (db_requests (fst (snd (pollProcessingRequests (filesEnv 3) 600
       (fst (snd (pollProcessingRequests (filesEnv 0) 500 oneDb))))))) \<and>
   complete 600 (touch 500 (processingRequest 1 ''B1'')) \<in>
     set (db_requests (pollMany [(filesEnv 5, 700), (filesEnv 6, 800)]
       (fst (snd (pollProcessingRequests (filesEnv 3) 600
         (fst (snd (pollProcessingRequests (filesEnv 0) 500 oneDb)))))))) \<and>
   req_completedAt (complete 600 (touch 500 (processingRequest 1 ''B1''))) = Some 600"
proof -
  let ?r = "processingRequest 1 ''B1''"
  let ?entry = "\<lambda>n. \<lparr>l_foreignBookId = ''B1'', l_bookFileCount = Some n,
                       l_grabbed = False, l_monitored = True\<rparr>"
  have ids: "distinct (map req_id (db_requests oneDb))" by code_simp
  have conf: "\<not> notConfigured oneDb" by code_simp
  have r1: "?r \<in> set (db_requests oneDb)" by (simp add: oneDb_def)
  have r2: "req_status ?r = processing" by (simp add: processingRequest_def)
  have r3: "req_bookshelfId ?r = Some 7" by (simp add: processingRequest_def)
  have p11: "e_book (filesEnv 0) ?r = Found demoBook" by (simp add: filesEnv_def)
  have p12: "e_authorBooks (filesEnv 0) ?r = Answered [?entry 0]"
    by (simp add: filesEnv_def processingRequest_def)
  have p13: "List.find (\<lambda>b. l_foreignBookId b = req_bookId ?r) [?entry 0] = Some (?entry 0)"
    by (simp add: processingRequest_def)
  have p14: "(case l_bookFileCount (?entry 0) of None \<Rightarrow> 0 | Some n \<Rightarrow> n) = 0" by simp
  have p21: "e_book (filesEnv 3) (touch 500 ?r) = Found demoBook" by (simp add: filesEnv_def)
  have p22: "e_authorBooks (filesEnv 3) (touch 500 ?r) = Answered [?entry 3]"
    by (simp add: filesEnv_def processingRequest_def touch_def)
  have p23: "List.find (\<lambda>b. l_foreignBookId b = req_bookId ?r) [?entry 3] = Some (?entry 3)"
    by (simp add: processingRequest_def)
  have p24: "l_bookFileCount (?entry 3) = Some 3" by simp
  have p25: "(0::nat) < 3" by simp
  note t = poll_monotone [OF ids conf r1 r2 r3 p11 p12 p13 p14 refl p21 p22 p23 p24 p25 refl,
                          of 600]
  from t have a: "touch 500 ?r \<in>
     set (db_requests (fst (snd (pollProcessingRequests (filesEnv 0) 500 oneDb))))" by blast
  from t have b: "complete 600 (touch 500 ?r) \<in>
     set (db_requests (fst (snd (pollProcessingRequests (filesEnv 3) 600
       (fst (snd (pollProcessingRequests (filesEnv 0) 500 oneDb)))))))" by blast
  from t have c: "complete 600 (touch 500 ?r) \<in>
     set (db_requests (pollMany [(filesEnv 5, 700), (filesEnv 6, 800)]
       (fst (snd (pollProcessingRequests (filesEnv 3) 600
         (fst (snd (pollProcessingRequests (filesEnv 0) 500 oneDb))))))))" by blast
  from t have d: "req_completedAt (complete 600 (touch 500 ?r)) = Some 600" by blast
  show ?thesis using r1 conf a b c d by blast
qed

section \<open>One poll over a batch\<close>

text \<open>
  Claim C5. In one invocation over a configured database (ids are the primary key of the
  table), every selected request is examined, whatever happened to the requests before
  it: \<open>checked\<close> is the number of selected requests, \<open>updated\<close> the number of those found
  available, \<open>errors\<close> the number of those whose examination failed (no book details, an
  exception, or the status \<open>error\<close> from the external system). Each row is changed
  according to the answers for that row alone, and a row's status becomes \<open>available\<close>
  exactly when it was selected and found available. In the batch of three whose second
  fetch fails, the third request still becomes available, with \<open>checked = 3\<close> and
  \<open>errors = 1\<close>.
\<close>

theorem poll_counts_and_isolation:
  assumes "distinct (map req_id (db_requests db))" and "\<not> notConfigured db"
  shows "checked (fst (pollProcessingRequests env now db)) =
           length (filter selected (db_requests db)) \<and>
         updated (fst (pollProcessingRequests env now db)) =
           length (filter (becomesAvailable env) (filter selected (db_requests db))) \<and>
         errors (fst (pollProcessingRequests env now db)) =
           length (filter (pollFails env) (filter selected (db_requests db))) \<and>
         db_requests (fst (snd (pollProcessingRequests env now db))) =
           map (pollRow env now) (db_requests db) \<and>
         map req_status (db_requests (fst (snd (pollProcessingRequests env now db)))) =
           map (\<lambda>r. if selected r \<and> becomesAvailable env r then available else req_status r)
             (db_requests db)"
  using assms poll_summary_counts [OF assms(2), of env now] poll_rows [OF assms(1), of env now]
  by (simp add: pollRow_status)

theorem poll_counts_and_isolation_witness:
  "distinct (map req_id (db_requests demoDb)) \<and> \<not> notConfigured demoDb \<and>
   checked (fst (pollProcessingRequests batchEnv 500 demoDb)) = 3 \<and>
   updated (fst (pollProcessingRequests batchEnv 500 demoDb)) = 1 \<and>
   errors (fst (pollProcessingRequests batchEnv 500 demoDb)) = 1 \<and>
   map req_status (db_requests (fst (snd (pollProcessingRequests batchEnv 500 demoDb)))) =
     [processing, processing, available]"
proof -
  have h1: "distinct (map req_id (db_requests demoDb))" by code_simp
  have h2: "\<not> notConfigured demoDb" by code_simp
  have e1: "length (filter selected (db_requests demoDb)) = 3" by code_simp
  have e2: "length (filter (becomesAvailable batchEnv) (filter selected (db_requests demoDb))) = 1"
    by code_simp
  have e3: "length (filter (pollFails batchEnv) (filter selected (db_requests demoDb))) = 1"
    by code_simp
  have e4: "map (\<lambda>r. if selected r \<and> becomesAvailable batchEnv r then available else req_status r)
              (db_requests demoDb) = [processing, processing, available]"
    by code_simp
  note t = poll_counts_and_isolation [OF h1 h2, of batchEnv 500, unfolded e1 e2 e3 e4]
  show ?thesis
    using h1 h2 t by blast
qed

section \<open>No available request without a \<open>bookshelfId\<close>\<close>

lemma tableOk_insert:
  assumes "tableOk db" "req_status row \<noteq> available"
  shows "tableOk (snd (insertRequest row db))"
proof -
  have "db_seq db + 1 \<notin> req_id ` set (db_requests db)"
    using assms(1) by (force simp: tableOk_def list_all_iff)
  moreover have "req_id r \<le> db_seq db + 1" if "r \<in> set (db_requests db)" for r
    using assms(1) that by (auto simp: tableOk_def list_all_iff)
  ultimately show ?thesis
    using assms by (simp add: tableOk_def insertRequest_def Let_def list_all_iff)
qed

lemma tableOk_update:
  assumes "tableOk db"
    and "\<And>r. req_id (f r) = req_id r"
    and "\<And>r. req_status (f r) \<noteq> available \<or> req_bookshelfId (f r) \<noteq> None"
  shows "tableOk (db\<lparr>db_requests := updateWhereId i f (db_requests db)\<rparr>)"
proof -
  have ids: "map req_id (updateWhereId i f (db_requests db)) = map req_id (db_requests db)"
    by (rule updateWhereId_ids) (rule assms(2))
  have "set (map req_id (updateWhereId i f (db_requests db))) = set (map req_id (db_requests db))"
    using ids by simp
  then have le: "list_all (\<lambda>r. req_id r \<le> db_seq db) (updateWhereId i f (db_requests db))"
    using assms(1) by (force simp: tableOk_def list_all_iff)
  have av: "list_all (\<lambda>r. req_status r \<noteq> available \<or> req_bookshelfId r \<noteq> None)
              (updateWhereId i f (db_requests db))"
    using assms(1,3) by (auto simp: tableOk_def list_all_iff updateWhereId_def)
  show ?thesis using assms(1) ids le av by (simp add: tableOk_def)
qed

lemma tableOk_updateRequest:
  assumes "tableOk db" "updateRequest requestId data now db = Some (u, db')"
    and "p_status data \<noteq> None" "p_status data \<noteq> Some available"
  shows "tableOk db'"
proof -
  have db': "db' = db\<lparr>db_requests := updateWhereId requestId (applyUpdate data now) (db_requests db)\<rparr>"
    using assms(2) by (auto simp: updateRequest_def Let_def split: option.splits)
  have "req_status (applyUpdate data now r) \<noteq> available" for r
    using assms(3,4) by (auto simp: applyUpdate_def)
  then show ?thesis
    unfolding db' using assms(1) by (intro tableOk_update) (simp_all add: applyUpdate_id)
qed

lemma approve_db:
  "ap_db (approve bs getBookById now adminId requestId db st) = db \<or>
   (\<exists>u. updateRequest requestId
           \<lparr>p_status = Some approved, p_notes = None, p_processedBy = Some adminId,
            p_bookshelfId = None\<rparr> now db =
        Some (u, ap_db (approve bs getBookById now adminId requestId db st))) \<or>
   (\<exists>u b. updateRequest requestId
           \<lparr>p_status = Some processing, p_notes = None, p_processedBy = Some adminId,
            p_bookshelfId = b\<rparr> now db =
        Some (u, ap_db (approve bs getBookById now adminId requestId db st)))"
  by (auto simp: approve_def split: option.splits book_outcome.splits prod.splits)

lemma tableOk_approve:
  assumes "tableOk db"
  shows "tableOk (ap_db (approve bs getBookById now adminId requestId db st))"
proof -
  have a: "tableOk db'"
    if "updateRequest requestId
           \<lparr>p_status = Some approved, p_notes = None, p_processedBy = Some adminId,
            p_bookshelfId = None\<rparr> now db = Some (u, db')" for u db'
    by (rule tableOk_updateRequest [OF assms that]) simp_all
  have b: "tableOk db'"
    if "updateRequest requestId
           \<lparr>p_status = Some processing, p_notes = None, p_processedBy = Some adminId,
            p_bookshelfId = b\<rparr> now db = Some (u, db')" for u b db'
    by (rule tableOk_updateRequest [OF assms that]) simp_all
  from approve_db [of bs getBookById now adminId requestId db st]
  show ?thesis
  proof (elim disjE exE)
    assume "ap_db (approve bs getBookById now adminId requestId db st) = db"
    with assms show ?thesis by simp
  next
    fix u
    assume "updateRequest requestId
           \<lparr>p_status = Some approved, p_notes = None, p_processedBy = Some adminId,
            p_bookshelfId = None\<rparr> now db =
        Some (u, ap_db (approve bs getBookById now adminId requestId db st))"
    then show ?thesis by (rule a)
  next
    fix u b
    assume "updateRequest requestId
           \<lparr>p_status = Some processing, p_notes = None, p_processedBy = Some adminId,
            p_bookshelfId = b\<rparr> now db =
        Some (u, ap_db (approve bs getBookById now adminId requestId db st))"
    then show ?thesis by (rule b)
  qed
qed

lemma tableOk_poll:
  assumes "tableOk db"
  shows "tableOk (fst (snd (pollProcessingRequests env now db)))"
proof -
  let ?db' = "fst (snd (pollProcessingRequests env now db))"
  have d: "distinct (map req_id (db_requests db))" using assms by (simp add: tableOk_def)
  have ids: "map req_id (db_requests ?db') = map req_id (db_requests db)" by (rule poll_ids)
  have "set (map req_id (db_requests ?db')) = set (map req_id (db_requests db))" using ids by simp
  then have le: "list_all (\<lambda>r. req_id r \<le> db_seq ?db') (db_requests ?db')"
    using assms by (force simp: tableOk_def list_all_iff poll_other_fields)
  have keep: "req_status (pollRow env now r) \<noteq> available \<or> req_bookshelfId (pollRow env now r) \<noteq> None"
    if "req_status r \<noteq> available \<or> req_bookshelfId r \<noteq> None" for r
    using that
    by (auto simp: pollRow_def rowChange_def selected_def touch_def complete_def
             split: book_outcome.splits)
  have av: "list_all (\<lambda>r. req_status r \<noteq> available \<or> req_bookshelfId r \<noteq> None) (db_requests ?db')"
    using assms keep by (auto simp: poll_rows [OF d] tableOk_def list_all_iff)
  show ?thesis using d ids le av by (simp add: tableOk_def)
qed

lemma reachable_tableOk: "reachable bs db \<Longrightarrow> tableOk db"
proof (induction rule: reachable.induct)
  case (start settings users)
  then show ?case by (simp add: tableOk_def)
next
  case (configure db settings users)
  then show ?case by (simp add: tableOk_def)
next
  case (create db getBookById now data created db')
  from create.hyps(2) have "db' = snd (insertRequest
             \<lparr>req_id = 0, req_userId = c_userId data, req_bookId = c_bookId data,
              req_status = pending, req_qualityProfileId = c_qualityProfileId data,
              req_bookshelfId = None, req_requestedAt = now, req_processedAt = None,
              req_processedBy = None, req_notes = c_notes data, req_completedAt = None,
              req_lastPolledAt = None, req_foreignBookId = None, req_foreignAuthorId = None,
              req_monitoringOption = None\<rparr> db)"
    by (auto simp: createRequest_def split: if_splits)
  with create.IH show ?case by (simp add: tableOk_insert)
next
  case (createOnly db now only created db')
  from createOnly.hyps(2) have "db' = snd (createOnlyThisBookRequest now only db)" by simp
  with createOnly.IH show ?case by (simp add: createOnlyThisBookRequest_def tableOk_insert)
next
  case (approval db getBookById now adminId requestId st)
  then show ?case by (simp add: tableOk_approve)
next
  case (poll db env now)
  then show ?case by (simp add: tableOk_poll)
qed

lemma create_pending:
  "createRequest getBookById now data db = Inr (created, db') \<Longrightarrow>
   req_status created = pending \<and> req_bookshelfId created = None"
  by (auto simp: createRequest_def insertRequest_def Let_def split: if_splits)

lemma addBook_success_id:
  "r_success (fst (addBook bs bookData st)) \<Longrightarrow>
   r_bookshelfId (fst (addBook bs bookData st)) \<noteq> None"
  by (auto simp: addBook_def failed_def added_def
           split: prod.splits list.splits fetched.splits option.splits if_splits)

lemma approve_processing:
  assumes "\<not> notConfigured db"
    and "ap_response (approve bs getBookById now adminId requestId db st) = JsonRequest u"
  shows "req_status u = processing \<and> req_bookshelfId u \<noteq> None"
proof -
  obtain existing where ex: "getRequestById requestId db = Some existing"
    using assms(2) by (cases "getRequestById requestId db") (auto simp: approve_def)
  obtain book where bk: "getBookById (req_bookId existing) = Found book"
    using assms(2) ex by (cases "getBookById (req_bookId existing)") (auto simp: approve_def)
  obtain result st1 where ab: "addBook bs (bookDataOf book existing) st = (result, st1)"
    by (cases "addBook bs (bookDataOf book existing) st") auto
  have ok: "r_success result"
    using assms ex bk ab by (auto simp: approve_def split: prod.splits if_splits)
  have "r_bookshelfId result \<noteq> None"
    using addBook_success_id [of bs "bookDataOf book existing" st] ab ok by simp
  then obtain i where i: "r_bookshelfId result = Some i" by auto
  have "u = applyUpdate \<lparr>p_status = Some processing, p_notes = None,
                         p_processedBy = Some adminId, p_bookshelfId = Some i\<rparr> now existing"
    using assms ex bk ab ok i
    by (auto simp: approve_def updateRequest_found split: prod.splits if_splits)
  then show ?thesis by (simp add: applyUpdate_def)
qed

lemma pollRow_available:
  "req_status (pollRow env now r) = available \<Longrightarrow>
   req_status r = available \<or> (req_status r = processing \<and> req_bookshelfId r \<noteq> None)"
  by (auto simp: pollRow_status selected_def split: if_splits)

text \<open>
  Claim C6. In every database that creation, approval and polling can produce from an
  empty request table, a request with status \<open>available\<close> has a \<open>bookshelfId\<close>. The
  three steps behind it: a created request is \<open>pending\<close> with no \<open>bookshelfId\<close>; an
  approval that answers with the request, in a configured database, has set the status
  \<open>processing\<close> together with a \<open>bookshelfId\<close>; and a poll makes a row \<open>available\<close> only
  when it was \<open>processing\<close> with a \<open>bookshelfId\<close>.
\<close>

theorem available_has_bookshelfId:
  "(reachable bs db \<longrightarrow>
      (\<forall>r \<in> set (db_requests db). req_status r = available \<longrightarrow> req_bookshelfId r \<noteq> None)) \<and>
   (createRequest getBookById now data db = Inr (created, db') \<longrightarrow>
      req_status created = pending \<and> req_bookshelfId created = None) \<and>
   (\<not> notConfigured db \<longrightarrow>
    ap_response (approve bs getBookById now adminId requestId db st) = JsonRequest u \<longrightarrow>
      req_status u = processing \<and> req_bookshelfId u \<noteq> None) \<and>
   (req_status (pollRow env now r) = available \<longrightarrow>
      req_status r = available \<or> (req_status r = processing \<and> req_bookshelfId r \<noteq> None))"
proof -
  have inv: "reachable bs db \<longrightarrow>
      (\<forall>r \<in> set (db_requests db). req_status r = available \<longrightarrow> req_bookshelfId r \<noteq> None)"
    using reachable_tableOk [of bs db] by (auto simp: tableOk_def list_all_iff)
  show ?thesis
    using inv create_pending [of getBookById now data db created db']
      approve_processing [of db bs getBookById now adminId requestId st u]
      pollRow_available [of env now r]
    by blast
qed

theorem available_has_bookshelfId_witness:
  "reachable demoShelf stage3 \<and>
   hd (db_requests stage3) \<in> set (db_requests stage3) \<and>
   req_status (hd (db_requests stage3)) = available \<and>
   req_bookshelfId (hd (db_requests stage3)) \<noteq> None \<and>
   createRequest hobbitFound 100
     \<lparr>c_userId = 10, c_bookId = ''B-hobbit'', c_qualityProfileId = 1, c_notes = None\<rparr>
     stage0 = Inr (hobbitRequest, stage1) \<and>
   req_status hobbitRequest = pending \<and> req_bookshelfId hobbitRequest = None \<and>
   \<not> notConfigured stage1 \<and>
   ap_response (approve demoShelf hobbitFound 200 2 1 stage1 ([], [])) =
     JsonRequest (hd (db_requests stage2)) \<and>
   req_status (hd (db_requests stage2)) = processing \<and>
   req_bookshelfId (hd (db_requests stage2)) \<noteq> None \<and>
   req_status (pollRow (filesEnv 3) 300 (hd (db_requests stage2))) = available"
proof -
  have r0: "reachable demoShelf stage0"
    unfolding stage0_def by (rule reachable.start)
  have c: "createRequest hobbitFound 100
             \<lparr>c_userId = 10, c_bookId = ''B-hobbit'', c_qualityProfileId = 1, c_notes = None\<rparr>
             stage0 = Inr (hobbitRequest, stage1)"
    by code_simp
  have r1: "reachable demoShelf stage1" by (rule reachable.create [OF r0 c])
  have r2: "reachable demoShelf stage2"
    unfolding stage2_def by (rule reachable.approval [OF r1])
  have r3: "reachable demoShelf stage3"
    unfolding stage3_def by (rule reachable.poll [OF r2])
  have e: "map (\<lambda>r. (req_status r, req_bookshelfId r)) (db_requests stage3) = [(available, Some 1)]"
    by code_simp
  then obtain row where rows: "db_requests stage3 = [row]" by auto
  have m: "hd (db_requests stage3) \<in> set (db_requests stage3)" using rows by simp
  have a: "req_status (hd (db_requests stage3)) = available" using e rows by simp
  have conf: "\<not> notConfigured stage1" by code_simp
  have resp: "ap_response (approve demoShelf hobbitFound 200 2 1 stage1 ([], [])) =
                JsonRequest (hd (db_requests stage2))"
    by code_simp
  have p: "req_status (pollRow (filesEnv 3) 300 (hd (db_requests stage2))) = available"
    by code_simp
  have i3: "req_bookshelfId (hd (db_requests stage3)) \<noteq> None"
    using available_has_bookshelfId [where bs = demoShelf and db = stage3] r3 m a by blast
  have i1: "req_status hobbitRequest = pending \<and> req_bookshelfId hobbitRequest = None"
    using available_has_bookshelfId
      [where getBookById = hobbitFound and now = 100 and db = stage0 and created = hobbitRequest
         and db' = stage1
         and data = "\<lparr>c_userId = 10, c_bookId = ''B-hobbit'', c_qualityProfileId = 1, c_notes = None\<rparr>"]
      c by blast
  have i2: "req_status (hd (db_requests stage2)) = processing \<and>
            req_bookshelfId (hd (db_requests stage2)) \<noteq> None"
    using available_has_bookshelfId
      [where bs = demoShelf and getBookById = hobbitFound and now = 200 and adminId = 2
         and requestId = 1 and db = stage1 and st = "([], [])" and u = "hd (db_requests stage2)"]
      conf resp by blast
  show ?thesis using r3 m a i3 c i1 conf resp i2 p by blast
qed

section \<open>Submission: the author lookup comes back empty\<close>

text \<open>
  Claim C7. When the author lookup of a submission gives the empty array (the endpoint
  answered with no result, or the lookup failed and \<open>lookupAuthor\<close> turned the failure
  into the empty array), \<open>addBook\<close> fails with the message
  \<open>Author not found in metadata provider\<close>, and the only request it has sent is that
  one author lookup: the book-lookup endpoint and every other endpoint are not called.
\<close>

theorem addBook_author_not_found:
  "fst (lookupAuthor bs (d_author bookData) st) = [] \<Longrightarrow>
   addBook bs bookData st =
     (failed ''Author not found in metadata provider'',
      (fst st @ [AuthorLookup (d_author bookData)],
       snd (author_lookup bs (d_author bookData) (snd st))))"
  by (auto simp: addBook_def lookupAuthor_def fetchAuthorLookup_def
           split: prod.splits list.splits fetched.splits)

theorem addBook_author_not_found_witness:
  "fst (lookupAuthor demoShelf ''Nobody'' ([], [])) = [] \<and>
   addBook demoShelf (hobbitData\<lparr>d_author := ''Nobody''\<rparr>) ([], []) =
     (failed ''Author not found in metadata provider'', ([AuthorLookup ''Nobody''], []))"
proof -
  have h: "fst (lookupAuthor demoShelf (d_author (hobbitData\<lparr>d_author := ''Nobody''\<rparr>)) ([], [])) = []"
    by (simp add: lookupAuthor_def fetchAuthorLookup_def demoShelf_def libraryShelf_def
          demoAuthors_def hobbitData_def)
  have w: "snd (author_lookup demoShelf ''Nobody'' []) = []"
    by (simp add: demoShelf_def libraryShelf_def)
  show ?thesis
    using h addBook_author_not_found [OF h] w by (simp add: hobbitData_def)
qed

section \<open>\<open>lastPolledAt\<close>\<close>

text \<open>
  Claim C9, as amended. In one invocation over a configured database, every selected
  request whose book details \<open>getBookById\<close> returns has \<open>lastPolledAt\<close> set to the poll
  time, whatever the external status is, the status \<open>error\<close> included (the book is absent
  from the author's list, the fetch failed, the response was not ok). A selected request
  whose book details are not found, or whose lookup throws, is counted in \<open>checked\<close> and
  \<open>errors\<close> and its row is left as it was.
\<close>

theorem poll_lastPolledAt:
  assumes "distinct (map req_id (db_requests db))" and "\<not> notConfigured db"
  shows "db_requests (fst (snd (pollProcessingRequests env now db))) =
           map (pollRow env now) (db_requests db) \<and>
         (\<forall>r. selected r \<longrightarrow>
            (case e_book env r of
               Found book \<Rightarrow> req_lastPolledAt (pollRow env now r) = Some now
             | NoBook \<Rightarrow> pollRow env now r = r
             | Thrown \<Rightarrow> pollRow env now r = r))"
  using assms poll_rows [OF assms(1), of env now]
  by (simp add: pollRow_def rowChange_def touch_def complete_def split: book_outcome.splits)

theorem poll_lastPolledAt_witness:
  "distinct (map req_id (db_requests demoDb)) \<and> \<not> notConfigured demoDb \<and>
   selected (processingRequest 2 ''B2'') \<and>
   s_status (getAuthorBookStatus (e_authorBooks batchEnv (processingRequest 2 ''B2'')) ''B2'') = is_error \<and>
   map req_lastPolledAt (db_requests (fst (snd (pollProcessingRequests batchEnv 500 demoDb)))) =
     [Some 500, Some 500, Some 500]"
proof -
  have h1: "distinct (map req_id (db_requests demoDb))" by code_simp
  have h2: "\<not> notConfigured demoDb" by code_simp
  have h3: "selected (processingRequest 2 ''B2'')" by code_simp
  have h4: "s_status (getAuthorBookStatus (e_authorBooks batchEnv (processingRequest 2 ''B2'')) ''B2'') = is_error"
    by code_simp
  have e: "map req_lastPolledAt (map (pollRow batchEnv 500) (db_requests demoDb)) =
             [Some 500, Some 500, Some 500]"
    by code_simp
  from poll_lastPolledAt [OF h1 h2, of batchEnv 500]
  have "db_requests (fst (snd (pollProcessingRequests batchEnv 500 demoDb))) =
          map (pollRow batchEnv 500) (db_requests demoDb)" by (rule conjunct1)
  with e have "map req_lastPolledAt (db_requests (fst (snd (pollProcessingRequests batchEnv 500 demoDb)))) =
     [Some 500, Some 500, Some 500]" by simp
  with h1 h2 h3 h4 show ?thesis by blast
qed

text \<open>
  Claim C9 as stated fails: the only request of \<open>oneDb\<close> is selected and examined
  (\<open>checked = 1\<close>, \<open>errors = 1\<close>), \<open>getBookById\<close> finds no book for it, and the database
  after the poll is the database before it, with \<open>lastPolledAt\<close> still null.
\<close>

theorem poll_lastPolledAt_counterexample:
  "pollProcessingRequests noBookEnv 500 oneDb =
     (\<lparr>checked = 1, updated = 0, errors = 1, details = []\<rparr>, oneDb, []) \<and>
   map req_lastPolledAt (db_requests oneDb) = [None] \<and>
   map selected (db_requests oneDb) = [True]"
  by code_simp

section \<open>Approval without a configured external system\<close>

text \<open>
  Claim C10, as amended. When the request exists, \<open>getBookById\<close> returns its book, and
  the setting \<open>bookshelf_url\<close> or \<open>bookshelf_api_key\<close> is missing or empty, the approval
  sends nothing to the external system (the record of requests is as before), writes
  the status \<open>approved\<close>, the administrator and the time into the row, leaves
  \<open>bookshelfId\<close> as it was, and answers with the updated request.
\<close>

theorem approve_not_configured:
  assumes "getRequestById requestId db = Some existingRequest"
    and "getBookById (req_bookId existingRequest) = Found book"
    and "notConfigured db"
  shows "approve bs getBookById now adminId requestId db st =
           \<lparr>ap_response = JsonRequest
              (existingRequest\<lparr>req_status := approved, req_processedBy := Some adminId,
                               req_processedAt := Some now\<rparr>),
            ap_db = db\<lparr>db_requests := updateWhereId requestId
              (\<lambda>r. r\<lparr>req_status := approved, req_processedBy := Some adminId,
                      req_processedAt := Some now\<rparr>) (db_requests db)\<rparr>,
            ap_session = st, ap_notices = []\<rparr>"
proof -
  have f: "applyUpdate \<lparr>p_status = Some approved, p_notes = None, p_processedBy = Some adminId,
                        p_bookshelfId = None\<rparr> now =
           (\<lambda>r. r\<lparr>req_status := approved, req_processedBy := Some adminId,
                   req_processedAt := Some now\<rparr>)"
    by (rule ext) (simp add: applyUpdate_def)
  show ?thesis
    using assms by (simp add: approve_def updateRequest_found f)
qed

theorem approve_not_configured_witness:
  "getRequestById 1 bareDb = Some hobbitRequest \<and> notConfigured bareDb \<and>
   approve demoShelf hobbitFound 200 2 1 bareDb ([], []) =
     \<lparr>ap_response = JsonRequest
        (hobbitRequest\<lparr>req_status := approved, req_processedBy := Some 2,
                        req_processedAt := Some 200\<rparr>),
      ap_db = bareDb\<lparr>db_requests :=
        [hobbitRequest\<lparr>req_status := approved, req_processedBy := Some 2,
                         req_processedAt := Some 200\<rparr>]\<rparr>,
      ap_session = ([], []), ap_notices = []\<rparr> \<and>
   req_bookshelfId (hobbitRequest\<lparr>req_status := approved, req_processedBy := Some 2,
                                  req_processedAt := Some 200\<rparr>) = None"
proof -
  have h1: "getRequestById 1 bareDb = Some hobbitRequest" by code_simp
  have h2: "hobbitFound (req_bookId hobbitRequest) = Found hobbitDetails"
    by (simp add: hobbitFound_def)
  have h3: "notConfigured bareDb" by code_simp
  have u: "updateWhereId 1 (\<lambda>r. r\<lparr>req_status := approved, req_processedBy := Some 2,
                                   req_processedAt := Some 200\<rparr>) (db_requests bareDb) =
           [hobbitRequest\<lparr>req_status := approved, req_processedBy := Some 2,
                           req_processedAt := Some 200\<rparr>]"
    by (simp add: updateWhereId_def bareDb_def hobbitRequest_def)
  have n: "req_bookshelfId (hobbitRequest\<lparr>req_status := approved, req_processedBy := Some 2,
                                  req_processedAt := Some 200\<rparr>) = None"
    by (simp add: hobbitRequest_def)
  note t = approve_not_configured
    [where getBookById = hobbitFound and bs = demoShelf and now = 200 and adminId = 2
       and st = "([], [])", OF h1 h2 h3, unfolded u]
  show ?thesis using h1 h3 t n by blast
qed

text \<open>
  Claim C10 as stated fails for an existing request whose book \<open>getBookById\<close> does not
  find: the handler answers 404 \<open>Book not found\<close> before it reads the settings, and the
  request stays \<open>pending\<close>.
\<close>

theorem approve_not_configured_counterexample:
  "getRequestById 1 bareDb = Some hobbitRequest \<and> notConfigured bareDb \<and>
   approve demoShelf nothingFound 200 2 1 bareDb ([], []) =
     \<lparr>ap_response = JsonError 404 ''Book not found'', ap_db = bareDb,
      ap_session = ([], []), ap_notices = []\<rparr> \<and>
   map req_status (db_requests bareDb) = [pending]"
  by code_simp

end
